theory Spec2Isabelle
  imports Complex_Main "HOL-Library.Sublist"
begin

section \<open>JavaScript strings\<close>

text \<open>
  A JavaScript string is modelled as a \<open>char list\<close>. The model is exact for ASCII text
  (one \<open>char\<close> per UTF-16 code unit); the only non-ASCII text of the program, the
  chart emoji of the analytics header, is written as the four bytes of its UTF-8 form.
  \<open>toLowerCase\<close> lowers the letters A-Z, \<open>\s\<close> and \<open>trim\<close> know the six ASCII
  white-space characters.
\<close>

definition isWhitespace :: "char \<Rightarrow> bool" where
  "isWhitespace c = (c \<in> {CHR 0x09, CHR 0x0A, CHR 0x0B, CHR 0x0C, CHR 0x0D, CHR 0x20})"

definition trim :: "string \<Rightarrow> string" where
  "trim s = rev (dropWhile isWhitespace (rev (dropWhile isWhitespace s)))"

definition lowerChar :: "char \<Rightarrow> char" where
  "lowerChar c =
     (let n = (of_char c :: nat) in if 65 \<le> n \<and> n \<le> 90 then char_of (n + 32) else c)"

definition toLowerCase :: "string \<Rightarrow> string" where
  "toLowerCase s = map lowerChar s"

definition includes_js :: "string \<Rightarrow> string \<Rightarrow> bool" where
  "includes_js s sub = sublist sub s"

definition substring0 :: "nat \<Rightarrow> string \<Rightarrow> string" where
  "substring0 n s = take n s"

definition digitChar :: "nat \<Rightarrow> char" where
  "digitChar d = char_of (48 + d)"

function showNat :: "nat \<Rightarrow> string" where
  "showNat n = (if n < 10 then [digitChar n] else showNat (n div 10) @ [digitChar (n mod 10)])"
  by pat_completeness auto
termination
  by (relation "measure id") auto

declare showNat.simps [simp del]

text \<open>\<open>split(/\s+/)\<close>: the pieces between maximal runs of white space, the empty
  pieces at either end included.\<close>

fun splitAcc :: "string \<Rightarrow> string \<Rightarrow> bool \<Rightarrow> string list" where
  "splitAcc [] cur inSep = [rev cur]"
| "splitAcc (c # cs) cur inSep =
     (if isWhitespace c
      then (if inSep then splitAcc cs cur True else rev cur # splitAcc cs [] True)
      else splitAcc cs (c # cur) False)"

definition splitWhitespace :: "string \<Rightarrow> string list" where
  "splitWhitespace s = splitAcc s [] False"

section \<open>Values, errors and outcomes of external calls\<close>

text \<open>A text or date property of a ticket as the store returns it: absent
  (\<open>undefined\<close>, as on the raw objects of the object API), \<open>null\<close>, or a string. The
  two numeric properties are a number or nothing; numbers are exact rationals.\<close>

datatype field = Undefined | Null | Text string

fun truthy :: "field \<Rightarrow> bool" where
  "truthy (Text s) = (s \<noteq> [])"
| "truthy _ = False"

text \<open>A field inside a template literal.\<close>

fun toStr :: "field \<Rightarrow> string" where
  "toStr Undefined = ''undefined''"
| "toStr Null = ''null''"
| "toStr (Text s) = s"

record ticket =
  ticketId :: field
  ticketSubject :: field
  ticketDescription :: field
  resolution :: field
  ticketStatus :: field
  ticketPriority :: field
  productPurchased :: field
  firstResponseTime :: field
  timeToResolution :: "rat option"
  customerSatisfactionRating :: "rat option"

text \<open>A thrown value: its \<open>message\<close> and \<open>code\<close> properties, when it has them.\<close>

record js_error =
  message :: "string option"
  code :: "string option"

datatype 'a outcome = Throws js_error | Returns 'a

text \<open>What \<open>llm.invoke\<close> resolves with: \<open>response.content\<close> is a string, or something
  that has no string methods.\<close>

datatype llm_content = TextContent string | NonTextContent

definition typeError :: "string \<Rightarrow> js_error" where
  "typeError m = \<lparr>message = Some m, code = None\<rparr>"

section \<open>RAGAgent: the template answer\<close>

record rag_references =
  ticketIds :: "field list"
  fallbackUsed :: bool
  fallbackReason :: "string option"
  refError :: "string option"

record rag_response =
  answer :: string
  references :: rag_references

definition truncated :: "nat \<Rightarrow> string \<Rightarrow> string" where
  "truncated n s = substring0 n s @ (if length s > n then ''...'' else '''')"

definition ticketBlock :: "ticket \<Rightarrow> string" where
  "ticketBlock t =
     ''**Ticket #'' @ toStr (ticketId t) @ ''** (''
       @ (if truthy (ticketPriority t) then toStr (ticketPriority t) else ''Unknown'')
       @ '' Priority)\<newline>''
     @ ''**Subject:** '' @ toStr (ticketSubject t) @ ''\<newline>''
     @ ''**Product:** '' @ toStr (productPurchased t) @ ''\<newline>''
     @ ''**Status:** '' @ toStr (ticketStatus t) @ ''\<newline>''
     @ (if truthy (ticketDescription t)
        then ''**Issue:** '' @ truncated 150 (toStr (ticketDescription t)) @ ''\<newline>''
        else '''')
     @ (if truthy (resolution t)
        then ''**Resolution:** '' @ truncated 200 (toStr (resolution t)) @ ''\<newline>''
        else '''')
     @ ''\<newline>''"

text \<open>The \<open>for\<close> loop of \<open>generateFallbackResponse\<close>: \<open>len\<close> is \<open>tickets.length\<close>,
  the list argument holds the tickets from \<open>index\<close> on, and the \<open>break\<close> ends the
  recursion.\<close>

fun renderLoop :: "nat \<Rightarrow> nat \<Rightarrow> ticket list \<Rightarrow> string \<Rightarrow> string" where
  "renderLoop len index [] ans = ans"
| "renderLoop len index (t # ts) ans =
     (let ans1 = ans @ ticketBlock t in
      if index \<ge> 2
      then (let remaining = int len - 3 in
            if remaining > 0
            then ans1 @ ''... and '' @ showNat (nat remaining) @ '' more similar ticket(s).\<newline>''
            else ans1)
      else renderLoop len (index + 1) ts ans1)"

definition batteryTips :: string where
  "batteryTips = ''\<newline>**General Battery Tips:**\<newline>- Check for iOS/firmware updates\<newline>- Review battery usage in settings\<newline>- Consider battery replacement if device is old\<newline>''"

definition cameraTips :: string where
  "cameraTips = ''\<newline>**General Camera Tips:**\<newline>- Ensure sufficient storage space\<newline>- Check SD card compatibility\<newline>- Update device firmware\<newline>''"

definition setupTips :: string where
  "setupTips = ''\<newline>**General Setup Tips:**\<newline>- Follow the quick start guide\<newline>- Ensure stable internet connection\<newline>- Check device compatibility\<newline>''"

definition generalGuidance :: "string \<Rightarrow> string" where
  "generalGuidance userQuery =
     (let queryLower = toLowerCase userQuery in
      if includes_js queryLower ''battery'' then batteryTips
      else if includes_js queryLower ''camera'' \<or> includes_js queryLower ''recording'' then cameraTips
      else if includes_js queryLower ''setup'' \<or> includes_js queryLower ''install'' then setupTips
      else '''')"

definition fallbackNote :: string where
  "fallbackNote = ''\<newline>*Note: This response was generated using fallback mode due to temporary service limitations.*''"

definition fallbackIntro :: "string \<Rightarrow> nat \<Rightarrow> string" where
  \<open>fallbackIntro userQuery n =
     ''Based on your query "'' @ userQuery @ ''", I found '' @ showNat n
       @ '' relevant support ticket(s):\<newline>\<newline>''\<close>

definition generateFallbackResponse :: "string \<Rightarrow> ticket list \<Rightarrow> js_error \<Rightarrow> rag_response" where
  "generateFallbackResponse userQuery tickets err =
     (if tickets = []
      then \<lparr>answer = ''I couldn't find any relevant support tickets for your query. This may be due to system limitations. Please try rephrasing your question or contact support directly.'',
            references = \<lparr>ticketIds = [], fallbackUsed = True, fallbackReason = None,
                          refError = Some ''No tickets found''\<rparr>\<rparr>
      else
        (let ans = renderLoop (length tickets) 0 tickets (fallbackIntro userQuery (length tickets));
             ans = ans @ generalGuidance userQuery;
             ans = ans @ fallbackNote
         in \<lparr>answer = trim ans,
              references = \<lparr>ticketIds = map ticketId tickets, fallbackUsed = True,
                            fallbackReason =
                              Some (case message err of
                                      Some m \<Rightarrow> if m = [] then ''LLM service unavailable'' else m
                                    | None \<Rightarrow> ''LLM service unavailable''),
                            refError = None\<rparr>\<rparr>))"

section \<open>The ticket store\<close>

text \<open>
  The store is outside the program. It is a pair of functions from the request the client
  builds to what \<open>.do()\<close> does with it: it throws, or it resolves with a value. The
  class name and the field list are the same constants in every request and are left out.
  Every search function returns, next to its JavaScript return value, the calls it made
  to the store, in order.
\<close>

datatype operator = OpAnd | OpOr | OpEqual | OpLike

datatype where_filter =
    Condition "string list" operator string
  | Operands operator "where_filter list"

record gql_request =
  nearText :: "string option"
  whereClause :: "where_filter option"
  limit :: nat

datatype call = GraphQLGet gql_request | DataGetter where_filter nat

text \<open>\<open>result.data.Get[className]\<close>: reading it throws a TypeError when \<open>data\<close> is
  missing (\<open>NoData\<close>); the class entry is an array or is missing (\<open>None\<close>).\<close>

datatype gql_data = NoData | ClassList "ticket list option"

record gql_result =
  errors :: "string list"
  data :: gql_data

text \<open>What the object API resolves with: a falsy value, an array, or some other truthy
  value (one without \<open>map\<close>, whose \<open>length\<close> is not 0).\<close>

datatype raw_result = RawFalsy | RawArray "ticket list" | RawOther

record store =
  graphqlGet :: "gql_request \<Rightarrow> gql_result outcome"
  dataGetter :: "where_filter \<Rightarrow> nat \<Rightarrow> raw_result outcome"

datatype tickets_value = TicketArray "ticket list" | NotArray

type_synonym search_result = "call list \<times> tickets_value"

definition noDataError :: js_error where
  "noDataError = typeError ''Cannot read properties of undefined (reading 'Get')''"

definition newError :: "string \<Rightarrow> js_error" where
  "newError m = \<lparr>message = Some m, code = None\<rparr>"

section \<open>RAGAgent, cleaned version: the three-tier search\<close>

record error_type =
  isConnectionError :: bool
  isTransformerError :: bool

definition detectErrorType :: "js_error \<Rightarrow> error_type" where
  "detectErrorType error =
     (let msg = (case message error of Some m \<Rightarrow> m | None \<Rightarrow> '''') in
      \<lparr>isConnectionError =
         (includes_js msg ''ECONNREFUSED'' \<or> includes_js msg ''fetch failed''
          \<or> includes_js msg ''Connection refused'' \<or> code error = Some ''ECONNREFUSED''),
       isTransformerError =
         (includes_js msg ''t2v-transformers'' \<or> includes_js msg ''vectorize''
          \<or> includes_js msg ''no such host''
          \<or> includes_js msg ''dial tcp: lookup t2v-transformers'')\<rparr>)"

definition extractKeywords :: "string \<Rightarrow> string list" where
  "extractKeywords query =
     take 3 (filter (\<lambda>word. length word > 2) (splitWhitespace (toLowerCase query)))"

definition createKeywordConditions :: "string list \<Rightarrow> where_filter list" where
  "createKeywordConditions keywords =
     map (\<lambda>keyword. Operands OpOr
            [Condition [''ticketSubject''] OpLike (''*'' @ keyword @ ''*''),
             Condition [''ticketDescription''] OpLike (''*'' @ keyword @ ''*''),
             Condition [''productPurchased''] OpLike (''*'' @ keyword @ ''*'')])
         keywords"

text \<open>The \<open>where\<close> filter that \<open>fallbackSearch\<close> and \<open>fetchObjectsFallback\<close> each
  build, by the same lines of code.\<close>

definition keywordWhere :: "string \<Rightarrow> field \<Rightarrow> where_filter" where
  "keywordWhere query tenant =
     (let keywords = extractKeywords query;
          keywordConditions = createKeywordConditions keywords
      in if truthy tenant
         then Operands OpAnd
                [Condition [''productPurchased''] OpEqual (toStr tenant),
                 Operands OpOr keywordConditions]
         else Operands OpOr keywordConditions)"

definition fetchObjectsFallback :: "store \<Rightarrow> string \<Rightarrow> field \<Rightarrow> nat \<Rightarrow> search_result" where
  "fetchObjectsFallback st query tenant lmt =
     (let whereFilter = keywordWhere query tenant in
      ([DataGetter whereFilter lmt],
       (case dataGetter st whereFilter lmt of
          Throws error \<Rightarrow> TicketArray []
        | Returns RawFalsy \<Rightarrow> TicketArray []
        | Returns (RawArray tickets) \<Rightarrow> TicketArray tickets
        | Returns RawOther \<Rightarrow> NotArray)))"

definition fallbackSearchCatch :: "store \<Rightarrow> string \<Rightarrow> field \<Rightarrow> nat \<Rightarrow> js_error \<Rightarrow> search_result" where
  "fallbackSearchCatch st query tenant lmt error =
     (if isConnectionError (detectErrorType error) then ([], TicketArray [])
      else fetchObjectsFallback st query tenant lmt)"

definition fallbackSearch :: "store \<Rightarrow> string \<Rightarrow> field \<Rightarrow> nat \<Rightarrow> search_result" where
  "fallbackSearch st query tenant lmt =
     (let req = \<lparr>nearText = None, whereClause = Some (keywordWhere query tenant), limit = lmt\<rparr>;
          (calls, v) =
            (case graphqlGet st req of
               Throws error \<Rightarrow> fallbackSearchCatch st query tenant lmt error
             | Returns result \<Rightarrow>
                 (case data result of
                    NoData \<Rightarrow> fallbackSearchCatch st query tenant lmt noDataError
                  | ClassList cl \<Rightarrow>
                      (let tickets = (case cl of Some ts \<Rightarrow> ts | None \<Rightarrow> []) in
                       if length tickets = 0 then fetchObjectsFallback st query tenant lmt
                       else ([], TicketArray tickets))))
      in (GraphQLGet req # calls, v))"

definition searchTicketsCatch :: "store \<Rightarrow> string \<Rightarrow> field \<Rightarrow> nat \<Rightarrow> js_error \<Rightarrow> search_result" where
  "searchTicketsCatch st query tenant lmt error =
     (let et = detectErrorType error in
      if isConnectionError et then ([], TicketArray [])
      else if isTransformerError et then fallbackSearch st query tenant lmt
      else fallbackSearch st query tenant lmt)"

definition semanticRequest :: "string \<Rightarrow> field \<Rightarrow> nat \<Rightarrow> gql_request" where
  "semanticRequest query tenant lmt =
     (if truthy tenant
      then \<lparr>nearText = Some query,
            whereClause = Some (Condition [''productPurchased''] OpEqual (toStr tenant)),
            limit = lmt\<rparr>
      else \<lparr>nearText = Some query, whereClause = None, limit = lmt\<rparr>)"

definition searchTickets :: "store \<Rightarrow> string \<Rightarrow> field \<Rightarrow> nat \<Rightarrow> search_result" where
  "searchTickets st query tenant lmt =
     (let searchQuery = semanticRequest query tenant lmt;
          (calls, v) =
            (case graphqlGet st searchQuery of
               Throws error \<Rightarrow> searchTicketsCatch st query tenant lmt error
             | Returns result \<Rightarrow>
                 (case errors result of
                    errorMessage # _ \<Rightarrow>
                      if isTransformerError (detectErrorType \<lparr>message = Some errorMessage, code = None\<rparr>)
                      then fallbackSearch st query tenant lmt
                      else searchTicketsCatch st query tenant lmt
                             (newError (''GraphQL error: '' @ errorMessage))
                  | [] \<Rightarrow>
                      (case data result of
                         NoData \<Rightarrow> searchTicketsCatch st query tenant lmt noDataError
                       | ClassList cl \<Rightarrow>
                           ([], TicketArray (case cl of Some ts \<Rightarrow> ts | None \<Rightarrow> [])))))
      in (GraphQLGet searchQuery # calls, v))"

section \<open>RAGAgent, updated version (ragAgent.js): the three-tier search\<close>

definition isConnectionError_upd :: "js_error \<Rightarrow> bool" where
  "isConnectionError_upd error =
     (case message error of
        None \<Rightarrow> False
      | Some m \<Rightarrow> m \<noteq> [] \<and>
          (includes_js m ''ECONNREFUSED'' \<or> includes_js m ''fetch failed''
           \<or> includes_js m ''Connection refused'' \<or> code error = Some ''ECONNREFUSED''))"

definition transformerMessage :: "string \<Rightarrow> bool" where
  "transformerMessage m =
     (includes_js m ''t2v-transformers'' \<or> includes_js m ''vectorize''
      \<or> includes_js m ''no such host'' \<or> includes_js m ''dial tcp: lookup t2v-transformers'')"

definition isTransformerError_upd :: "js_error \<Rightarrow> bool" where
  "isTransformerError_upd error =
     (case message error of None \<Rightarrow> False | Some m \<Rightarrow> m \<noteq> [] \<and> transformerMessage m)"

text \<open>The \<open>where\<close> filter of the updated version: the whole query between two stars,
  against the subject and the description.\<close>

definition queryWhere_upd :: "string \<Rightarrow> field \<Rightarrow> where_filter" where
  "queryWhere_upd query tenant =
     (if truthy tenant
      then Operands OpAnd
             [Condition [''productPurchased''] OpEqual (toStr tenant),
              Operands OpOr
                [Condition [''ticketSubject''] OpLike (''*'' @ query @ ''*''),
                 Condition [''ticketDescription''] OpLike (''*'' @ query @ ''*'')]]
      else Operands OpOr
             [Condition [''ticketSubject''] OpLike (''*'' @ query @ ''*''),
              Condition [''ticketDescription''] OpLike (''*'' @ query @ ''*'')])"

definition fetchObjectsFallback_upd :: "store \<Rightarrow> string \<Rightarrow> field \<Rightarrow> nat \<Rightarrow> search_result" where
  "fetchObjectsFallback_upd st query tenant lmt =
     (let whereFilter = queryWhere_upd query tenant in
      ([DataGetter whereFilter lmt],
       (case dataGetter st whereFilter lmt of
          Throws error \<Rightarrow> TicketArray []
        | Returns RawFalsy \<Rightarrow> TicketArray []
        | Returns (RawArray tickets) \<Rightarrow> TicketArray tickets
        | Returns RawOther \<Rightarrow> NotArray)))"

definition fallbackSearchCatch_upd :: "store \<Rightarrow> string \<Rightarrow> field \<Rightarrow> nat \<Rightarrow> js_error \<Rightarrow> search_result" where
  "fallbackSearchCatch_upd st query tenant lmt error =
     (if isConnectionError_upd error then ([], TicketArray [])
      else fetchObjectsFallback_upd st query tenant lmt)"

definition fallbackSearch_upd :: "store \<Rightarrow> string \<Rightarrow> field \<Rightarrow> nat \<Rightarrow> search_result" where
  "fallbackSearch_upd st query tenant lmt =
     (let req = \<lparr>nearText = None, whereClause = Some (queryWhere_upd query tenant), limit = lmt\<rparr>;
          (calls, v) =
            (case graphqlGet st req of
               Throws error \<Rightarrow> fallbackSearchCatch_upd st query tenant lmt error
             | Returns result \<Rightarrow>
                 (case data result of
                    NoData \<Rightarrow> fallbackSearchCatch_upd st query tenant lmt noDataError
                  | ClassList cl \<Rightarrow>
                      ([], TicketArray (case cl of Some ts \<Rightarrow> ts | None \<Rightarrow> []))))
      in (GraphQLGet req # calls, v))"

definition searchTicketsCatch_upd :: "store \<Rightarrow> string \<Rightarrow> field \<Rightarrow> nat \<Rightarrow> js_error \<Rightarrow> search_result" where
  "searchTicketsCatch_upd st query tenant lmt error =
     (if isConnectionError_upd error then ([], TicketArray [])
      else if isTransformerError_upd error then fallbackSearch_upd st query tenant lmt
      else fallbackSearch_upd st query tenant lmt)"

definition searchTickets_upd :: "store \<Rightarrow> string \<Rightarrow> field \<Rightarrow> nat \<Rightarrow> search_result" where
  "searchTickets_upd st query tenant lmt =
     (let searchQuery = semanticRequest query tenant lmt;
          (calls, v) =
            (case graphqlGet st searchQuery of
               Throws error \<Rightarrow> searchTicketsCatch_upd st query tenant lmt error
             | Returns result \<Rightarrow>
                 (case errors result of
                    errorMessage # _ \<Rightarrow>
                      if transformerMessage errorMessage
                      then fallbackSearch_upd st query tenant lmt
                      else searchTicketsCatch_upd st query tenant lmt
                             (newError (''GraphQL error: '' @ errorMessage))
                  | [] \<Rightarrow>
                      (case data result of
                         NoData \<Rightarrow> searchTicketsCatch_upd st query tenant lmt noDataError
                       | ClassList cl \<Rightarrow>
                           ([], TicketArray (case cl of Some ts \<Rightarrow> ts | None \<Rightarrow> [])))))
      in (GraphQLGet searchQuery # calls, v))"

section \<open>RAGAgent, cleaned version: answer synthesis\<close>

text \<open>
  \<open>generateResponse\<close> builds its prompt from the tickets and awaits \<open>llm.invoke\<close>;
  the argument \<open>gen\<close> is what that call does. An array is needed before the \<open>try\<close>:
  on any other truthy value \<open>tickets.map\<close> throws a TypeError out of the function.
\<close>

definition generateResponse ::
    "llm_content outcome \<Rightarrow> string \<Rightarrow> tickets_value \<Rightarrow> js_error + rag_response" where
  "generateResponse gen userQuery tv =
     (case tv of
        NotArray \<Rightarrow> Inl (typeError ''tickets.map is not a function'')
      | TicketArray tickets \<Rightarrow>
          if length tickets = 0
          then Inr \<lparr>answer = ''I couldn't find any relevant support tickets for your query. Please try rephrasing your question or check if the product name is correct.'',
                    references = \<lparr>ticketIds = [], fallbackUsed = False, fallbackReason = None,
                                  refError = None\<rparr>\<rparr>
          else
            (case gen of
               Returns (TextContent content) \<Rightarrow>
                 Inr \<lparr>answer = trim content,
                      references = \<lparr>ticketIds = map ticketId tickets, fallbackUsed = False,
                                    fallbackReason = None, refError = None\<rparr>\<rparr>
             | Returns NonTextContent \<Rightarrow>
                 Inr (generateFallbackResponse userQuery tickets
                        (typeError ''response.content.trim is not a function''))
             | Throws error \<Rightarrow> Inr (generateFallbackResponse userQuery tickets error)))"

text \<open>\<open>RAGAgent.handleQuery\<close> of the cleaned version: search, then synthesis, inside
  one \<open>try\<close>.\<close>

definition ragHandleQuery ::
    "store \<Rightarrow> llm_content outcome \<Rightarrow> string \<Rightarrow> field \<Rightarrow> nat \<Rightarrow> rag_response" where
  "ragHandleQuery st gen userQuery tenant lmt =
     (let tickets = snd (searchTickets st userQuery tenant lmt) in
      case generateResponse gen userQuery tickets of
        Inr response \<Rightarrow> response
      | Inl error \<Rightarrow>
          \<lparr>answer = ''I encountered an error while searching for support tickets. Please try again.'',
           references = \<lparr>ticketIds = [], fallbackUsed = False, fallbackReason = None,
                         refError = None\<rparr>\<rparr>)"

section \<open>RAGAgent, updated version (ragAgent.js): the agent\<close>

text \<open>
  \<open>handleQuery\<close> of ragAgent.js, the module that \<open>DelegatingAgent\<close> imports, hands
  the query to a LangGraph agent and returns the content of its last message as it is.
  The run of the agent is outside the program: it throws (so does reading the content
  when the result holds no message), or it resolves with the content of the last
  message: a string, an array of \<open>n\<close> content blocks, or nothing. In a string
  concatenation an array of objects reads \<open>[object Object]\<close> once for each element,
  with commas between.
\<close>

datatype message_content = TextMessage string | BlockMessage nat | NoContent

fun truthyContent :: "message_content \<Rightarrow> bool" where
  "truthyContent (TextMessage s) = (s \<noteq> [])"
| "truthyContent (BlockMessage n) = True"
| "truthyContent NoContent = False"

fun joinComma :: "string list \<Rightarrow> string" where
  "joinComma [] = []"
| "joinComma [x] = x"
| "joinComma (x # y # ys) = x @ '','' @ joinComma (y # ys)"

fun contentText :: "message_content \<Rightarrow> string" where
  "contentText (TextMessage s) = s"
| "contentText (BlockMessage n) = joinComma (replicate n ''[object Object]'')"
| "contentText NoContent = ''undefined''"

text \<open>The object \<open>handleQuery\<close> returns: the answer, and as references the thread
  identifier and, from the \<open>catch\<close>, the message of the error. It has no
  \<open>ticketIds\<close>.\<close>

record agent_response =
  agentAnswer :: message_content
  agentThreadId :: string
  agentError :: "string option"

definition ragHandleQuery_upd ::
    "message_content outcome \<Rightarrow> string \<Rightarrow> field \<Rightarrow> string \<Rightarrow> agent_response" where
  "ragHandleQuery_upd run userQuery tenant thread =
     (case run of
        Returns content \<Rightarrow>
          \<lparr>agentAnswer = content, agentThreadId = thread, agentError = None\<rparr>
      | Throws error \<Rightarrow>
          \<lparr>agentAnswer = TextMessage ''I encountered an error while searching for support tickets. Please try again.'',
           agentThreadId = thread, agentError = message error\<rparr>)"

section \<open>ChartTool: the analytics aggregation\<close>

text \<open>
  The two distributions are plain objects created by \<open>{}\<close>, so a lookup sees the
  properties of \<open>Object.prototype\<close> as well as the counts stored so far. An object is
  the list of its own properties in insertion order; a stored value is a count, or the
  string that \<open>+ 1\<close> makes of a value that is not a number.
\<close>

datatype count_value = Count nat | Junk string

type_synonym js_object = "(string \<times> count_value) list"

text \<open>The properties every object inherits, each with the string Node converts its
  value to.\<close>

definition nativeFunction :: "string \<Rightarrow> string" where
  "nativeFunction name = ''function '' @ name @ ''() { [native code] }''"

definition inherited :: "string \<Rightarrow> string option" where
  "inherited key =
     (if key = ''__proto__'' then Some ''[object Object]''
      else if key = ''constructor'' then Some (nativeFunction ''Object'')
      else if key \<in> set [''__defineGetter__'', ''__defineSetter__'', ''hasOwnProperty'',
                ''__lookupGetter__'', ''__lookupSetter__'', ''isPrototypeOf'',
                ''propertyIsEnumerable'', ''toString'', ''valueOf'', ''toLocaleString'']
      then Some (nativeFunction key)
      else None)"

definition setOwn :: "js_object \<Rightarrow> string \<Rightarrow> count_value \<Rightarrow> js_object" where
  "setOwn obj key v =
     (if key \<in> fst ` set obj then map (\<lambda>(k, w). if k = key then (k, v) else (k, w)) obj
      else obj @ [(key, v)])"

text \<open>\<open>obj[key] = (obj[key] || 0) + 1\<close>. An assignment to \<open>__proto__\<close> with a string
  changes nothing.\<close>

definition increment :: "js_object \<Rightarrow> string \<Rightarrow> js_object" where
  "increment obj key =
     (case map_of obj key of
        Some (Count n) \<Rightarrow> setOwn obj key (Count (n + 1))
      | Some (Junk s) \<Rightarrow> setOwn obj key (if s = [] then Count 1 else Junk (s @ ''1''))
      | None \<Rightarrow>
          (case inherited key of
             Some text \<Rightarrow> if key = ''__proto__'' then obj else setOwn obj key (Junk (text @ ''1''))
           | None \<Rightarrow> setOwn obj key (Count 1)))"

text \<open>\<open>new Date(timeString)\<close> with \<open>getHours()\<close> and \<open>getMinutes()\<close>: the parser of
  the runtime and its time zone are a parameter, a partial map from a string to the local
  hour and minute of the date it denotes, undefined where the date is invalid.\<close>

type_synonym date_parser = "string \<rightharpoonup> nat \<times> nat"

definition parseTimeToHours :: "date_parser \<Rightarrow> field \<Rightarrow> rat option" where
  "parseTimeToHours dp timeString =
     (case timeString of
        Text s \<Rightarrow> (case dp s of
                     Some (hours, minutes) \<Rightarrow> Some (of_nat hours + of_nat minutes / 60)
                   | None \<Rightarrow> None)
      | _ \<Rightarrow> None)"

record time_stats =
  time_average :: rat
  time_min :: rat
  time_max :: rat
  time_count :: nat

record satisfaction_stats =
  sat_average :: rat
  sat_distribution :: js_object
  sat_count :: nat

definition mathRound :: "rat \<Rightarrow> int" where
  "mathRound x = \<lfloor>x + 1 / 2\<rfloor>"

definition calculateTimeStats :: "rat list \<Rightarrow> time_stats" where
  "calculateTimeStats timeList =
     (if length timeList = 0
      then \<lparr>time_average = 0, time_min = 0, time_max = 0, time_count = 0\<rparr>
      else
        (let sortedTimes = sort timeList;
             total_sum = foldl (\<lambda>acc time. acc + time) 0 timeList
         in \<lparr>time_average = of_int (mathRound ((total_sum / of_nat (length timeList)) * 100)) / 100,
              time_min = hd sortedTimes,
              time_max = last sortedTimes,
              time_count = length timeList\<rparr>))"

definition showInt :: "int \<Rightarrow> string" where
  "showInt i = (if i < 0 then ''-'' @ showNat (nat (- i)) else showNat (nat i))"

definition calculateSatisfactionStats :: "rat list \<Rightarrow> satisfaction_stats" where
  "calculateSatisfactionStats ratings =
     (if length ratings = 0
      then \<lparr>sat_average = 0, sat_distribution = [], sat_count = 0\<rparr>
      else
        (let total_sum = foldl (\<lambda>acc rating. acc + rating) 0 ratings;
             distribution = foldl (\<lambda>d rating. increment d (showInt \<lfloor>rating\<rfloor>)) [] ratings
         in \<lparr>sat_average = of_int (mathRound ((total_sum / of_nat (length ratings)) * 100)) / 100,
              sat_distribution = distribution,
              sat_count = length ratings\<rparr>))"

record analytics_acc =
  acc_statusDistribution :: js_object
  acc_priorityDistribution :: js_object
  acc_responseTimes :: "rat list"
  acc_resolutionTimes :: "rat list"
  acc_satisfactionRatings :: "rat list"

record analytics =
  statusDistribution :: js_object
  priorityDistribution :: js_object
  responseTimeStats :: time_stats
  resolutionTimeStats :: time_stats
  satisfactionStats :: satisfaction_stats

text \<open>The body of the \<open>forEach\<close> of \<open>processAnalyticsData\<close>.\<close>

definition processTicket :: "date_parser \<Rightarrow> analytics_acc \<Rightarrow> ticket \<Rightarrow> analytics_acc" where
  "processTicket dp acc t =
     (let status = (if truthy (ticketStatus t) then toStr (ticketStatus t) else ''Unknown'');
          priority = (if truthy (ticketPriority t) then toStr (ticketPriority t) else ''Unknown'')
      in \<lparr>acc_statusDistribution = increment (acc_statusDistribution acc) status,
           acc_priorityDistribution = increment (acc_priorityDistribution acc) priority,
           acc_responseTimes =
             (if truthy (firstResponseTime t)
              then (case parseTimeToHours dp (firstResponseTime t) of
                      Some responseTime \<Rightarrow> acc_responseTimes acc @ [responseTime]
                    | None \<Rightarrow> acc_responseTimes acc)
              else acc_responseTimes acc),
           acc_resolutionTimes =
             (case timeToResolution t of
                Some r \<Rightarrow> if r \<noteq> 0 then acc_resolutionTimes acc @ [r] else acc_resolutionTimes acc
              | None \<Rightarrow> acc_resolutionTimes acc),
           acc_satisfactionRatings =
             (case customerSatisfactionRating t of
                Some r \<Rightarrow> if r \<noteq> 0 then acc_satisfactionRatings acc @ [r]
                          else acc_satisfactionRatings acc
              | None \<Rightarrow> acc_satisfactionRatings acc)\<rparr>)"

definition emptyAcc :: analytics_acc where
  "emptyAcc = \<lparr>acc_statusDistribution = [], acc_priorityDistribution = [],
               acc_responseTimes = [], acc_resolutionTimes = [], acc_satisfactionRatings = []\<rparr>"

definition processAnalyticsData :: "date_parser \<Rightarrow> ticket list \<Rightarrow> analytics" where
  "processAnalyticsData dp tickets =
     (let acc = foldl (processTicket dp) emptyAcc tickets in
      \<lparr>statusDistribution = acc_statusDistribution acc,
       priorityDistribution = acc_priorityDistribution acc,
       responseTimeStats = calculateTimeStats (acc_responseTimes acc),
       resolutionTimeStats = calculateTimeStats (acc_resolutionTimes acc),
       satisfactionStats = calculateSatisfactionStats (acc_satisfactionRatings acc)\<rparr>)"

section \<open>ChartTool: the chart objects\<close>

text \<open>
  \<open>Object.keys\<close> and \<open>Object.values\<close> list the own properties: the array
  indices in ascending order first, then the other keys in insertion order. Of a chart
  object the model keeps the type, the labels and the data; the colours and the display
  options are left out.
\<close>

definition isDigit :: "char \<Rightarrow> bool" where
  "isDigit c = (48 \<le> (of_char c :: nat) \<and> (of_char c :: nat) \<le> 57)"

definition readNat :: "string \<Rightarrow> nat" where
  "readNat s = foldl (\<lambda>n c. 10 * n + ((of_char c :: nat) - 48)) 0 s"

definition readInt :: "string \<Rightarrow> int" where
  "readInt s = (case s of
                  c # cs \<Rightarrow> if c = CHR ''-'' then - int (readNat cs) else int (readNat s)
                | [] \<Rightarrow> 0)"

definition isArrayIndex :: "string \<Rightarrow> bool" where
  "isArrayIndex k =
     (k \<noteq> [] \<and> list_all isDigit k \<and> (length k = 1 \<or> hd k \<noteq> CHR ''0'')
      \<and> readNat k < 4294967295)"

definition objectEntries :: "js_object \<Rightarrow> (string \<times> count_value) list" where
  "objectEntries obj =
     sort_key (\<lambda>(k, v). readNat k) (filter (\<lambda>(k, v). isArrayIndex k) obj)
     @ filter (\<lambda>(k, v). \<not> isArrayIndex k) obj"

definition objectKeys :: "js_object \<Rightarrow> string list" where
  "objectKeys obj = map fst (objectEntries obj)"

definition objectValues :: "js_object \<Rightarrow> count_value list" where
  "objectValues obj = map snd (objectEntries obj)"

record dist_chart =
  chartType :: string
  labels :: "string list"
  chartData :: "count_value list"

record time_chart =
  timeChartType :: string
  timeLabels :: "string list"
  timeData :: "rat list"

record charts =
  statusChart :: dist_chart
  priorityChart :: dist_chart
  responseTimeChart :: time_chart
  satisfactionChart :: dist_chart

text \<open>What \<open>generateAnalytics\<close> returns: the four charts, or the chart of
  \<open>getErrorChart\<close>, a doughnut with the one label \<open>Error\<close> and the message as its
  title, which has none of the four properties.\<close>

datatype chart_result = Charts charts | ErrorChart string

definition createStatusChart :: "js_object \<Rightarrow> dist_chart" where
  "createStatusChart statusData =
     \<lparr>chartType = ''doughnut'', labels = objectKeys statusData,
      chartData = objectValues statusData\<rparr>"

definition createPriorityChart :: "js_object \<Rightarrow> dist_chart" where
  "createPriorityChart priorityData =
     \<lparr>chartType = ''bar'', labels = objectKeys priorityData,
      chartData = objectValues priorityData\<rparr>"

definition createResponseTimeChart :: "time_stats \<Rightarrow> time_chart" where
  "createResponseTimeChart timeStats =
     \<lparr>timeChartType = ''bar'', timeLabels = [''Average'', ''Minimum'', ''Maximum''],
      timeData = [time_average timeStats, time_min timeStats, time_max timeStats]\<rparr>"

definition createSatisfactionChart :: "satisfaction_stats \<Rightarrow> dist_chart" where
  "createSatisfactionChart stats =
     (let keys = sort_key readInt (objectKeys (sat_distribution stats)) in
      \<lparr>chartType = ''bar'',
       labels = map (\<lambda>label. label @ '' Star'' @ (if label \<noteq> ''1'' then ''s'' else '''')) keys,
       chartData = map (\<lambda>label. case map_of (sat_distribution stats) label of
                                   Some v \<Rightarrow> v | None \<Rightarrow> Count 0) keys\<rparr>)"

definition getErrorChart :: "string \<Rightarrow> chart_result" where
  "getErrorChart msg = ErrorChart msg"

definition analyticsRequest :: "field \<Rightarrow> gql_request" where
  "analyticsRequest tenant =
     (if truthy tenant
      then \<lparr>nearText = None,
            whereClause = Some (Condition [''productPurchased''] OpEqual (toStr tenant)),
            limit = 10000\<rparr>
      else \<lparr>nearText = None, whereClause = None, limit = 10000\<rparr>)"

text \<open>\<open>getAnalyticsData\<close> has no \<open>try\<close> of its own: what it throws is caught by
  \<open>generateAnalytics\<close>.\<close>

definition getAnalyticsData :: "store \<Rightarrow> date_parser \<Rightarrow> field \<Rightarrow> js_error + analytics" where
  "getAnalyticsData st dp tenant =
     (case graphqlGet st (analyticsRequest tenant) of
        Throws error \<Rightarrow> Inl error
      | Returns result \<Rightarrow>
          (case data result of
             NoData \<Rightarrow> Inl noDataError
           | ClassList cl \<Rightarrow>
               Inr (processAnalyticsData dp (case cl of Some ts \<Rightarrow> ts | None \<Rightarrow> []))))"

definition generateAnalytics :: "store \<Rightarrow> date_parser \<Rightarrow> field \<Rightarrow> chart_result" where
  "generateAnalytics st dp tenant =
     (case getAnalyticsData st dp tenant of
        Inr a \<Rightarrow>
          Charts \<lparr>statusChart = createStatusChart (statusDistribution a),
                  priorityChart = createPriorityChart (priorityDistribution a),
                  responseTimeChart = createResponseTimeChart (responseTimeStats a),
                  satisfactionChart = createSatisfactionChart (satisfactionStats a)\<rparr>
      | Inl error \<Rightarrow> getErrorChart ''Failed to generate analytics'')"

section \<open>DelegatingAgent, cleaned version\<close>

text \<open>
  A value as \<open>JSON.parse\<close> returns it, with \<open>undefined\<close> for a property that is not
  there. \<open>JSON.parse\<close> belongs to the runtime and is a parameter: a partial map from a
  text to the value it denotes, undefined where the call throws.
\<close>

datatype jsvalue =
    JUndefined | JNull | JBool bool | JNum rat | JStr string
  | JArr "jsvalue list" | JObj "(string \<times> jsvalue) list"

type_synonym json_parser = "string \<rightharpoonup> jsvalue"

fun truthyJ :: "jsvalue \<Rightarrow> bool" where
  "truthyJ JUndefined = False"
| "truthyJ JNull = False"
| "truthyJ (JBool b) = b"
| "truthyJ (JNum r) = (r \<noteq> 0)"
| "truthyJ (JStr s) = (s \<noteq> [])"
| "truthyJ (JArr xs) = True"
| "truthyJ (JObj kvs) = True"

text \<open>Reading the property \<open>needsRAG\<close> or \<open>needsChart\<close> of a value: a TypeError on
  \<open>null\<close> and \<open>undefined\<close>, \<open>undefined\<close> on a value that has no such property.\<close>

fun getProp :: "jsvalue \<Rightarrow> string \<Rightarrow> js_error + jsvalue" where
  "getProp JUndefined key =
     Inl (typeError (''Cannot read properties of undefined (reading '' @ [CHR 0x27] @ key
                     @ [CHR 0x27] @ '')''))"
| "getProp JNull key =
     Inl (typeError (''Cannot read properties of null (reading '' @ [CHR 0x27] @ key
                     @ [CHR 0x27] @ '')''))"
| "getProp (JObj kvs) key = Inr (case map_of kvs key of Some v \<Rightarrow> v | None \<Rightarrow> JUndefined)"
| "getProp v key = Inr JUndefined"

text \<open>\<open>response.match(/\{[\s\S]*\}/)\<close>: the star is greedy, so the match runs from the
  first opening brace to the last closing brace of the text.\<close>

definition jsonMatch :: "string \<Rightarrow> string option" where
  "jsonMatch response =
     (let fromBrace = dropWhile (\<lambda>c. c \<noteq> CHR ''{'') response;
          m = rev (dropWhile (\<lambda>c. c \<noteq> CHR ''}'') (rev fromBrace))
      in if m = [] then None else Some m)"

definition defaultAnalysis :: jsvalue where
  "defaultAnalysis =
     JObj [(''needsRAG'', JBool True), (''needsChart'', JBool False),
           (''reasoning'', JStr ''Failed to parse analysis, defaulting to RAG'')]"

definition parseJSONResponse :: "json_parser \<Rightarrow> llm_content \<Rightarrow> jsvalue" where
  "parseJSONResponse JSON_parse response =
     (case response of
        NonTextContent \<Rightarrow> defaultAnalysis
      | TextContent text \<Rightarrow>
          (case jsonMatch text of
             Some jsonMatch0 \<Rightarrow>
               (case JSON_parse jsonMatch0 of Some v \<Rightarrow> v | None \<Rightarrow> defaultAnalysis)
           | None \<Rightarrow> defaultAnalysis))"

definition isLineTerminator :: "char \<Rightarrow> bool" where
  "isLineTerminator c = (c = CHR 0x0A \<or> c = CHR 0x0D)"

text \<open>\<open>/show.*stat/\<close>: the dot stands for any character but a line terminator.\<close>

definition matchesShowStat :: "string \<Rightarrow> bool" where
  "matchesShowStat s =
     list_ex (\<lambda>suf. prefix ''show'' suf
                \<and> sublist ''stat'' (takeWhile (\<lambda>c. \<not> isLineTerminator c) (drop 4 suf)))
             (suffixes s)"

definition hasIssueKeywords :: "string \<Rightarrow> bool" where
  "hasIssueKeywords queryLower =
     list_ex (includes_js queryLower)
       [''issue'', ''problem'', ''fix'', ''trouble'', ''error'', ''common'', ''help'', ''setup'',
        ''install'', ''battery'', ''camera'', ''tv'', ''broken'', ''not working'',
        ''malfunction'', ''defect'']"

definition hasAnalyticsKeywords :: "string \<Rightarrow> bool" where
  "hasAnalyticsKeywords queryLower =
     (list_ex (includes_js queryLower) [''analytics'', ''chart'', ''statistic'', ''data'']
      \<or> matchesShowStat queryLower
      \<or> list_ex (includes_js queryLower)
           [''distribution'', ''trend'', ''visual'', ''graph'', ''report'', ''dashboard'',
            ''metrics''])"

definition isQuotaError :: "js_error \<Rightarrow> bool" where
  "isQuotaError error =
     (case message error of
        None \<Rightarrow> False
      | Some m \<Rightarrow> m \<noteq> [] \<and>
          (includes_js m ''429'' \<or> includes_js m ''Too Many Requests''
           \<or> includes_js m ''quota'' \<or> includes_js m ''rate limit''))"

text \<open>The \<open>catch\<close> of \<open>analyzeQueryRequirements\<close>: the keyword analysis.\<close>

definition keywordAnalysis :: "string \<Rightarrow> js_error \<Rightarrow> jsvalue" where
  "keywordAnalysis userQuery error =
     (let queryLower = toLowerCase userQuery in
      JObj [(''needsRAG'', JBool (hasIssueKeywords queryLower)),
            (''needsChart'', JBool (hasAnalyticsKeywords queryLower)),
            (''reasoning'',
             JStr (if isQuotaError error
                   then ''Fallback analysis due to API quota limits - using keyword detection''
                   else ''Fallback analysis based on keywords due to LLM error''))])"

text \<open>\<open>classify\<close> is what the \<open>llm.invoke\<close> of the analysis prompt does.\<close>

definition analyzeQueryRequirements ::
    "json_parser \<Rightarrow> llm_content outcome \<Rightarrow> string \<Rightarrow> jsvalue" where
  "analyzeQueryRequirements JSON_parse classify userQuery =
     (case classify of
        Returns content \<Rightarrow> parseJSONResponse JSON_parse content
      | Throws error \<Rightarrow> keywordAnalysis userQuery error)"

text \<open>\<open>toFixed(2)\<close> of a number, for values below \<open>10^21\<close>.\<close>

definition toFixed2 :: "rat \<Rightarrow> string" where
  "toFixed2 x =
     (let n = nat (mathRound (\<bar>x\<bar> * 100)) in
      (if x < 0 then ''-'' else '''') @ showNat (n div 100) @ ''.''
        @ [digitChar ((n mod 100) div 10), digitChar (n mod 10)])"

fun countToStr :: "count_value \<Rightarrow> string" where
  "countToStr (Count n) = showNat n"
| "countToStr (Junk s) = s"

text \<open>The \<open>forEach\<close> over the labels of a distribution chart; a label with no datum
  prints \<open>undefined\<close>.\<close>

definition distributionLines :: "dist_chart \<Rightarrow> string" where
  "distributionLines ch =
     concat (map (\<lambda>index.
                    ''- **'' @ labels ch ! index @ '':** ''
                    @ (if index < length (chartData ch) then countToStr (chartData ch ! index)
                       else ''undefined'')
                    @ '' tickets\<newline>'')
                 [0 ..< length (labels ch)])"

definition fixedOrNA :: "rat list \<Rightarrow> nat \<Rightarrow> string" where
  "fixedOrNA responseData i =
     (if i < length responseData
      then (let s = toFixed2 (responseData ! i) in if s = [] then ''N/A'' else s)
      else ''N/A'')"

definition dashboardHeader :: string where
  "dashboardHeader =
     [CHR 0xF0, CHR 0x9F, CHR 0x93, CHR 0x8A] @ '' **Analytics Dashboard:**\<newline>''"

definition chartSummary :: "chart_result \<Rightarrow> string" where
  "chartSummary chartResult =
     (case chartResult of
        ErrorChart msg \<Rightarrow> ''''
      | Charts c \<Rightarrow>
          ''**Ticket Status Distribution:**\<newline>'' @ distributionLines (statusChart c)
            @ ''\<newline>''
          @ ''**Ticket Priority Distribution:**\<newline>'' @ distributionLines (priorityChart c)
            @ ''\<newline>''
          @ (let responseData = timeData (responseTimeChart c) in
             ''**Response Time Statistics:**\<newline>''
             @ ''- **Average:** '' @ fixedOrNA responseData 0 @ '' hours\<newline>''
             @ ''- **Minimum:** '' @ fixedOrNA responseData 1 @ '' hours\<newline>''
             @ ''- **Maximum:** '' @ fixedOrNA responseData 2 @ '' hours\<newline>\<newline>''))"

definition combineResults :: "agent_response option \<Rightarrow> chart_result option \<Rightarrow> string" where
  "combineResults ragResult chartResult =
     (let ans = '''';
          ans = (case ragResult of
                   Some r \<Rightarrow> if truthyContent (agentAnswer r)
                             then ans @ contentText (agentAnswer r) else ans
                 | None \<Rightarrow> ans);
          ans = (case chartResult of
                   Some cr \<Rightarrow>
                     (if ans \<noteq> [] then ans @ ''\<newline>\<newline>'' @ dashboardHeader
                      else dashboardHeader)
                     @ ''I've generated comprehensive analytics for your support tickets:\<newline>\<newline>''
                     @ chartSummary cr
                 | None \<Rightarrow> ans);
          ans = (if ans = []
                 then ''I couldn't find specific information for your query. Please try asking about support issues or requesting analytics.''
                 else ans)
      in trim ans)"

record query_references =
  threadId :: string
  refTicketIds :: "field list option"
  errorMessage :: "string option"

record composed_answer =
  finalAnswer :: string
  finalReferences :: query_references
  chart :: "chart_result option"

text \<open>
  Everything outside the program that one call of \<open>handleQuery\<close> meets:
  \<open>JSON.parse\<close>, the answer of the model to the analysis prompt, the run of the
  retrieval agent, the store that the analytics read, and the date parser.
\<close>

record environment =
  JSON_parse :: json_parser
  classify :: "llm_content outcome"
  agentRun :: "message_content outcome"
  theStore :: store
  parseDate :: date_parser

text \<open>The body of the \<open>try\<close> of \<open>DelegatingAgent.handleQuery\<close>; \<open>Inl\<close> is a throw.
  \<open>this.ragAgent.handleQuery(userQuery, tenant)\<close> is the agent-based method of
  ragAgent.js, called with its default thread identifier. The object it returns has no
  \<open>ticketIds\<close>, so the assignment to \<open>references.ticketIds\<close> never runs.\<close>

definition handleQueryTry ::
    "environment \<Rightarrow> string \<Rightarrow> field \<Rightarrow> string \<Rightarrow> js_error + composed_answer" where
  "handleQueryTry env userQuery tenant thread =
     (let analysis = analyzeQueryRequirements (JSON_parse env) (classify env) userQuery in
      case getProp analysis ''needsRAG'' of
        Inl error \<Rightarrow> Inl error
      | Inr needsRAG \<Rightarrow>
          (case getProp analysis ''needsChart'' of
             Inl error \<Rightarrow> Inl error
           | Inr needsChart \<Rightarrow>
               (let ragResult =
                      (if truthyJ needsRAG
                       then Some (ragHandleQuery_upd (agentRun env) userQuery tenant ''default'')
                       else None);
                    refs = \<lparr>threadId = thread, refTicketIds = None, errorMessage = None\<rparr>;
                    chartResult =
                      (if truthyJ needsChart
                       then Some (generateAnalytics (theStore env) (parseDate env) tenant)
                       else None);
                    finalResponse = combineResults ragResult chartResult
                in Inr \<lparr>finalAnswer = finalResponse, finalReferences = refs,
                        chart = chartResult\<rparr>)))"

definition handleQuery ::
    "environment \<Rightarrow> string \<Rightarrow> field \<Rightarrow> string \<Rightarrow> js_error + composed_answer" where
  "handleQuery env userQuery tenant thread =
     (case handleQueryTry env userQuery tenant thread of
        Inr response \<Rightarrow> Inr response
      | Inl error \<Rightarrow>
          Inr \<lparr>finalAnswer = ''I encountered an error while processing your request. Please try again.'',
               finalReferences = \<lparr>threadId = thread, refTicketIds = None,
                                  errorMessage = message error\<rparr>,
               chart = None\<rparr>)"

section \<open>Outcomes the specification names\<close>

text \<open>
  The requests of the second tier, and what the specification calls a tier that fails or
  returns nothing: the call throws, or it resolves with no ticket. The first tier also
  fails when the response carries GraphQL errors.
\<close>

definition failsOrEmpty :: "gql_result outcome \<Rightarrow> bool" where
  "failsOrEmpty out =
     (case out of
        Throws e \<Rightarrow> True
      | Returns r \<Rightarrow> (case data r of
                        NoData \<Rightarrow> True
                      | ClassList cl \<Rightarrow> (case cl of None \<Rightarrow> True | Some ts \<Rightarrow> ts = [])))"

definition semanticFailsOrEmpty :: "gql_result outcome \<Rightarrow> bool" where
  "semanticFailsOrEmpty out =
     (case out of Throws e \<Rightarrow> True | Returns r \<Rightarrow> errors r \<noteq> [] \<or> failsOrEmpty out)"

definition rawFailsOrEmpty :: "raw_result outcome \<Rightarrow> bool" where
  "rawFailsOrEmpty out =
     (case out of
        Throws e \<Rightarrow> True
      | Returns raw \<Rightarrow> (case raw of RawFalsy \<Rightarrow> True | RawArray ts \<Rightarrow> ts = [] | RawOther \<Rightarrow> False))"

definition keywordRequest :: "string \<Rightarrow> field \<Rightarrow> nat \<Rightarrow> gql_request" where
  "keywordRequest query tenant lmt =
     \<lparr>nearText = None, whereClause = Some (keywordWhere query tenant), limit = lmt\<rparr>"

definition queryRequest_upd :: "string \<Rightarrow> field \<Rightarrow> nat \<Rightarrow> gql_request" where
  "queryRequest_upd query tenant lmt =
     \<lparr>nearText = None, whereClause = Some (queryWhere_upd query tenant), limit = lmt\<rparr>"

text \<open>
  An embedding failure of the first tier, as the code classifies it: a thrown error whose
  message names the vectorizer and that is not classified as a connection failure first,
  or a response whose first GraphQL error names the vectorizer. \<open>returnsTickets\<close>: the
  call resolves with exactly these tickets.
\<close>

definition embeddingFailure :: "gql_result outcome \<Rightarrow> bool" where
  "embeddingFailure out =
     (case out of
        Throws e \<Rightarrow> isTransformerError (detectErrorType e) \<and> \<not> isConnectionError (detectErrorType e)
      | Returns r \<Rightarrow>
          (case errors r of
             m # _ \<Rightarrow> isTransformerError (detectErrorType \<lparr>message = Some m, code = None\<rparr>)
           | [] \<Rightarrow> False))"

definition embeddingFailure_upd :: "gql_result outcome \<Rightarrow> bool" where
  "embeddingFailure_upd out =
     (case out of
        Throws e \<Rightarrow> isTransformerError_upd e \<and> \<not> isConnectionError_upd e
      | Returns r \<Rightarrow> (case errors r of m # _ \<Rightarrow> transformerMessage m | [] \<Rightarrow> False))"

definition returnsTickets :: "gql_result outcome \<Rightarrow> ticket list \<Rightarrow> bool" where
  "returnsTickets out ts =
     (case out of
        Throws e \<Rightarrow> False
      | Returns r \<Rightarrow> (case data r of
                        NoData \<Rightarrow> False
                      | ClassList cl \<Rightarrow> (case cl of None \<Rightarrow> ts = [] | Some ts' \<Rightarrow> ts' = ts)))"

text \<open>
  The sample of response times in the words of the specification: one value for every
  ticket whose first-response timestamp parses, the hour of the day plus the minutes
  divided by 60, in the order of the tickets.
\<close>

definition hourOfDay :: "nat \<times> nat \<Rightarrow> rat" where
  "hourOfDay hm = of_nat (fst hm) + of_nat (snd hm) / 60"

definition responseSample :: "date_parser \<Rightarrow> ticket list \<Rightarrow> rat list" where
  "responseSample dp tickets =
     concat (map (\<lambda>t. case firstResponseTime t of
                         Text s \<Rightarrow> (case dp s of Some hm \<Rightarrow> [hourOfDay hm] | None \<Rightarrow> [])
                       | _ \<Rightarrow> [])
                 tickets)"

text \<open>
  The label under which a ticket is counted, the sum of the counts of a distribution, and
  a distribution whose keys are distinct and whose values are all numbers.
\<close>

definition statusLabel :: "ticket \<Rightarrow> string" where
  "statusLabel t = (if truthy (ticketStatus t) then toStr (ticketStatus t) else ''Unknown'')"

definition priorityLabel :: "ticket \<Rightarrow> string" where
  "priorityLabel t = (if truthy (ticketPriority t) then toStr (ticketPriority t) else ''Unknown'')"

definition countOf :: "count_value \<Rightarrow> nat" where
  "countOf v = (case v of Count n \<Rightarrow> n | Junk s \<Rightarrow> 0)"

definition countSum :: "js_object \<Rightarrow> nat" where
  "countSum obj = sum_list (map (\<lambda>kv. countOf (snd kv)) obj)"

definition isCount :: "count_value \<Rightarrow> bool" where
  "isCount v = (case v of Count n \<Rightarrow> True | Junk s \<Rightarrow> False)"

definition wellCounted :: "js_object \<Rightarrow> bool" where
  "wellCounted obj = (distinct (map fst obj) \<and> list_all (\<lambda>kv. isCount (snd kv)) obj)"

text \<open>A text that is empty or keeps a character when its white space is trimmed, and
  the answer of \<open>combineResults\<close> when no tool produced text.\<close>

definition presentable :: "string \<Rightarrow> bool" where
  "presentable s = (s = [] \<or> trim s \<noteq> [])"

definition notFoundText :: string where
  "notFoundText = ''I couldn't find specific information for your query. Please try asking about support issues or requesting analytics.''"

section \<open>Sample data\<close>

definition ticketA :: ticket where
  "ticketA = \<lparr>ticketId = Text ''T-1001'', ticketSubject = Text ''Battery drains fast'',
     ticketDescription = Text ''The battery of my phone drains within two hours.'',
     resolution = Text ''Replaced the battery.'', ticketStatus = Text ''Closed'',
     ticketPriority = Text ''High'', productPurchased = Text ''iPhone'',
     firstResponseTime = Text ''2023-06-01T14:30:00Z'', timeToResolution = Some 5,
     customerSatisfactionRating = Some 4\<rparr>"

definition quotaError :: js_error where
  "quotaError = \<lparr>message = Some ''429 Too Many Requests'', code = None\<rparr>"

definition connError :: js_error where
  "connError = \<lparr>message = Some ''connect ECONNREFUSED 127.0.0.1:8080'', code = Some ''ECONNREFUSED''\<rparr>"

definition embeddingError :: js_error where
  "embeddingError = \<lparr>message = Some ''remote client vectorize: lookup t2v-transformers: no such host'', code = None\<rparr>"

definition serverError :: js_error where
  "serverError = \<lparr>message = Some ''Internal Server Error'', code = None\<rparr>"

definition downStore :: store where
  "downStore = \<lparr>graphqlGet = (\<lambda>req. Throws connError), dataGetter = (\<lambda>f n. Throws connError)\<rparr>"

definition brokenStore :: store where
  "brokenStore = \<lparr>graphqlGet = (\<lambda>req. Throws serverError), dataGetter = (\<lambda>f n. Throws serverError)\<rparr>"

text \<open>A store whose embedding service is down: the semantic query throws, the structured
  query returns \<open>tickets2\<close>, the object API returns \<open>raw\<close>.\<close>

definition keywordOnlyStore :: "ticket list \<Rightarrow> raw_result \<Rightarrow> store" where
  "keywordOnlyStore tickets2 raw =
     \<lparr>graphqlGet = (\<lambda>req. if nearText req \<noteq> None then Throws embeddingError
                           else Returns \<lparr>errors = [], data = ClassList (Some tickets2)\<rparr>),
      dataGetter = (\<lambda>f n. Returns raw)\<rparr>"

definition semanticStore :: "ticket list \<Rightarrow> store" where
  "semanticStore tickets1 =
     \<lparr>graphqlGet = (\<lambda>req. Returns \<lparr>errors = [], data = ClassList (Some tickets1)\<rparr>),
      dataGetter = (\<lambda>f n. Returns RawFalsy)\<rparr>"

definition halfDownStore :: store where
  "halfDownStore =
     \<lparr>graphqlGet = (\<lambda>req. if nearText req \<noteq> None then Throws embeddingError
                           else Throws connError),
      dataGetter = (\<lambda>f n. Returns (RawArray [ticketA]))\<rparr>"

text \<open>
  Part of the graph of \<open>JSON.parse\<close> and of the date parser (in a UTC time zone):
  the texts the examples look up.
\<close>

definition sampleJSON :: json_parser where
  \<open>sampleJSON =
     [''{"needsRAG": false, "needsChart": true}'' \<mapsto>
        JObj [(''needsRAG'', JBool False), (''needsChart'', JBool True)],
      ''{"needsRAG": "no", "needsChart": 1}'' \<mapsto>
        JObj [(''needsRAG'', JStr ''no''), (''needsChart'', JNum 1)]]\<close>

definition sampleDates :: date_parser where
  "sampleDates = [''2023-06-01T14:30:00Z'' \<mapsto> (14, 30)]"

definition outageEnv :: environment where
  "outageEnv = \<lparr>JSON_parse = sampleJSON, classify = Throws quotaError,
                 agentRun = Throws quotaError, theStore = downStore, parseDate = sampleDates\<rparr>"

text \<open>An environment in which every service answers and the last message of the agent
  is blank: a space, a line feed, a tab and a space.\<close>

definition blankEnv :: environment where
  \<open>blankEnv =
     \<lparr>JSON_parse =
        [''{"needsRAG": true, "needsChart": false}'' \<mapsto>
           JObj [(''needsRAG'', JBool True), (''needsChart'', JBool False)]],
      classify = Returns (TextContent ''{"needsRAG": true, "needsChart": false}''),
      agentRun = Returns (TextMessage [CHR '' '', CHR 0x0A, CHR 0x09, CHR '' '']),
      theStore = semanticStore [ticketA], parseDate = sampleDates\<rparr>\<close>

definition ticketB :: ticket where
  "ticketB = ticketA\<lparr>ticketId := Text ''T-1003'', firstResponseTime := Text ''soon''\<rparr>"

definition ticketC :: ticket where
  "ticketC = ticketA\<lparr>ticketId := Text ''T-1004'', firstResponseTime := Null\<rparr>"

definition ticketProto :: ticket where
  "ticketProto = ticketA\<lparr>ticketId := Text ''T-1002'', ticketStatus := Text ''constructor''\<rparr>"

section \<open>Facts about the string functions\<close>

lemma in_set_dropWhile: "c \<in> set s \<Longrightarrow> \<not> P c \<Longrightarrow> c \<in> set (dropWhile P s)"
  by (induction s) auto

lemma last_dropWhile: "dropWhile P xs \<noteq> [] \<Longrightarrow> last (dropWhile P xs) = last xs"
  by (induction xs) auto

lemma dropWhile_unchanged: "s \<noteq> [] \<Longrightarrow> \<not> P (hd s) \<Longrightarrow> dropWhile P s = s"
  by (cases s) auto

lemma trim_nonempty: "c \<in> set s \<Longrightarrow> \<not> isWhitespace c \<Longrightarrow> trim s \<noteq> []"
proof -
  assume a: "c \<in> set s" "\<not> isWhitespace c"
  then have "c \<in> set (rev (dropWhile isWhitespace s))"
    by (simp add: in_set_dropWhile)
  then have "c \<in> set (dropWhile isWhitespace (rev (dropWhile isWhitespace s)))"
    using a(2) by (rule in_set_dropWhile)
  then have "dropWhile isWhitespace (rev (dropWhile isWhitespace s)) \<noteq> []"
    by (cases "dropWhile isWhitespace (rev (dropWhile isWhitespace s))") simp_all
  then show ?thesis unfolding trim_def by (simp only: rev_is_Nil_conv not_False_eq_True)
qed

lemma trim_id:
  assumes "s \<noteq> []" "\<not> isWhitespace (hd s)" "\<not> isWhitespace (last s)"
  shows "trim s = s"
proof -
  have 1: "dropWhile isWhitespace s = s" using assms by (simp add: dropWhile_unchanged)
  have 2: "dropWhile isWhitespace (rev s) = rev s"
    using assms by (intro dropWhile_unchanged) (simp_all add: hd_rev)
  show ?thesis unfolding trim_def by (simp add: 1 2)
qed

lemma trim_ends:
  assumes "trim s \<noteq> []"
  shows "\<not> isWhitespace (hd (trim s)) \<and> \<not> isWhitespace (last (trim s))"
proof -
  let ?d = "dropWhile isWhitespace s"
  let ?e = "dropWhile isWhitespace (rev ?d)"
  have e: "?e \<noteq> []"
    using assms unfolding trim_def by (simp only: rev_is_Nil_conv not_False_eq_True)
  have d: "?d \<noteq> []"
  proof
    assume "?d = []"
    then have "?e = []" by (simp only: rev.simps dropWhile.simps)
    with e show False by (simp only:)
  qed
  have "last (trim s) = hd ?e" unfolding trim_def using e by (simp add: last_rev)
  moreover have "\<not> isWhitespace (hd ?e)" using e by (rule hd_dropWhile)
  moreover have "hd (trim s) = last ?e" unfolding trim_def using e by (simp add: hd_rev)
  moreover have "last ?e = last (rev ?d)" using e by (rule last_dropWhile)
  moreover have "last (rev ?d) = hd ?d" using d by (simp add: last_rev)
  moreover have "\<not> isWhitespace (hd ?d)" using d by (rule hd_dropWhile)
  ultimately show ?thesis by simp
qed

lemma trim_idem: "trim (trim s) = trim s"
proof (cases "trim s = []")
  case True
  have "trim [] = []" by (simp add: trim_def)
  then show ?thesis by (simp only: True)
next
  case False
  then show ?thesis using trim_ends trim_id by blast
qed

lemma showNat_nonempty: "showNat n \<noteq> []"
  by (subst showNat.simps) simp

lemma showNat_five: "showNat 5 = ''5''" and showNat_two: "showNat 2 = ''2''"
  by code_simp+

lemma fallbackNote_props: "fallbackNote \<noteq> []" "\<not> isWhitespace (last fallbackNote)"
  unfolding fallbackNote_def isWhitespace_def by simp_all

lemma fallback_trim:
  "trim (fallbackIntro q n @ rest @ fallbackNote) = fallbackIntro q n @ rest @ fallbackNote"
proof (rule trim_id)
  show "fallbackIntro q n @ rest @ fallbackNote \<noteq> []"
    by (simp add: fallbackNote_props)
  have "hd (fallbackIntro q n @ rest @ fallbackNote) = CHR ''B''"
    by (simp add: fallbackIntro_def)
  then show "\<not> isWhitespace (hd (fallbackIntro q n @ rest @ fallbackNote))"
    by (simp add: isWhitespace_def)
  show "\<not> isWhitespace (last (fallbackIntro q n @ rest @ fallbackNote))"
    by (simp add: fallbackNote_props)
qed

section \<open>The template answer\<close>

text \<open>
  Claim C7. For every list of exactly five tickets and a failed generation call, the text
  of the template answer is the opening line, exactly three ticket blocks (those of the
  first three tickets, in order), the line that counts the two tickets left out, the tip
  block of the query if any, and the closing note; the references hold the identifiers of
  all five tickets. A ticket block holds the identifier, the priority, the subject, the
  product, the status, the first 150 characters of the description and the first 200
  characters of the resolution, each of the two followed by an ellipsis when it was cut,
  and present when the ticket has the field.
\<close>

theorem template_fallback_five_tickets:
  "generateResponse (Throws err) userQuery (TicketArray [t1, t2, t3, t4, t5]) =
     Inr \<lparr>answer =
            ''Based on your query '' @ [CHR 0x22] @ userQuery @ [CHR 0x22]
              @ '', I found 5 relevant support ticket(s):\<newline>\<newline>''
            @ ticketBlock t1 @ ticketBlock t2 @ ticketBlock t3
            @ ''... and 2 more similar ticket(s).\<newline>''
            @ generalGuidance userQuery @ fallbackNote,
          references =
            \<lparr>ticketIds = [ticketId t1, ticketId t2, ticketId t3, ticketId t4, ticketId t5],
             fallbackUsed = True,
             fallbackReason = Some (case message err of
                                      Some m \<Rightarrow> if m = [] then ''LLM service unavailable'' else m
                                    | None \<Rightarrow> ''LLM service unavailable''),
             refError = None\<rparr>\<rparr>
   \<and> ticketBlock t =
       ''**Ticket #'' @ toStr (ticketId t) @ ''** (''
         @ (if truthy (ticketPriority t) then toStr (ticketPriority t) else ''Unknown'')
         @ '' Priority)\<newline>''
       @ ''**Subject:** '' @ toStr (ticketSubject t) @ ''\<newline>''
       @ ''**Product:** '' @ toStr (productPurchased t) @ ''\<newline>''
       @ ''**Status:** '' @ toStr (ticketStatus t) @ ''\<newline>''
       @ (if truthy (ticketDescription t)
          then ''**Issue:** '' @ take 150 (toStr (ticketDescription t))
               @ (if length (toStr (ticketDescription t)) > 150 then ''...'' else '''')
               @ ''\<newline>''
          else '''')
       @ (if truthy (resolution t)
          then ''**Resolution:** '' @ take 200 (toStr (resolution t))
               @ (if length (toStr (resolution t)) > 200 then ''...'' else '''')
               @ ''\<newline>''
          else '''')
       @ ''\<newline>''"
proof
  have loop: "renderLoop 5 0 [t1, t2, t3, t4, t5] a =
      a @ ticketBlock t1 @ ticketBlock t2 @ ticketBlock t3
        @ ''... and 2 more similar ticket(s).\<newline>''" for a
    by (simp add: showNat_two Let_def)
  have tr: "trim (fallbackIntro userQuery 5 @ (ticketBlock t1 @ ticketBlock t2 @ ticketBlock t3
            @ ''... and 2 more similar ticket(s).\<newline>'' @ generalGuidance userQuery)
            @ fallbackNote)
          = fallbackIntro userQuery 5 @ (ticketBlock t1 @ ticketBlock t2 @ ticketBlock t3
            @ ''... and 2 more similar ticket(s).\<newline>'' @ generalGuidance userQuery)
            @ fallbackNote"
    by (rule fallback_trim)
  have r: "generateResponse (Throws err) userQuery (TicketArray [t1, t2, t3, t4, t5]) =
      Inr \<lparr>answer = fallbackIntro userQuery 5 @ ticketBlock t1 @ ticketBlock t2 @ ticketBlock t3
            @ ''... and 2 more similar ticket(s).\<newline>''
            @ generalGuidance userQuery @ fallbackNote,
          references =
            \<lparr>ticketIds = [ticketId t1, ticketId t2, ticketId t3, ticketId t4, ticketId t5],
             fallbackUsed = True,
             fallbackReason = Some (case message err of
                                      Some m \<Rightarrow> if m = [] then ''LLM service unavailable'' else m
                                    | None \<Rightarrow> ''LLM service unavailable''),
             refError = None\<rparr>\<rparr>"
  proof -
    define ts where "ts = [t1, t2, t3, t4, t5]"
    have ts: "ts \<noteq> []" "length ts = 5"
      "map ticketId ts = [ticketId t1, ticketId t2, ticketId t3, ticketId t4, ticketId t5]"
      "renderLoop 5 0 ts a = a @ ticketBlock t1 @ ticketBlock t2 @ ticketBlock t3
          @ ''... and 2 more similar ticket(s).\<newline>''" for a
      using loop by (simp_all add: ts_def)
    show ?thesis
      unfolding ts_def [symmetric] generateResponse_def generateFallbackResponse_def
      using tr by (simp add: ts Let_def)
  qed
  have i5: "fallbackIntro userQuery 5 =
      ''Based on your query '' @ [CHR 0x22] @ userQuery @ [CHR 0x22]
        @ '', I found 5 relevant support ticket(s):\<newline>\<newline>''"
    by (simp add: fallbackIntro_def showNat_five)
  show "generateResponse (Throws err) userQuery (TicketArray [t1, t2, t3, t4, t5]) =
     Inr \<lparr>answer =
            ''Based on your query '' @ [CHR 0x22] @ userQuery @ [CHR 0x22]
              @ '', I found 5 relevant support ticket(s):\<newline>\<newline>''
            @ ticketBlock t1 @ ticketBlock t2 @ ticketBlock t3
            @ ''... and 2 more similar ticket(s).\<newline>''
            @ generalGuidance userQuery @ fallbackNote,
          references =
            \<lparr>ticketIds = [ticketId t1, ticketId t2, ticketId t3, ticketId t4, ticketId t5],
             fallbackUsed = True,
             fallbackReason = Some (case message err of
                                      Some m \<Rightarrow> if m = [] then ''LLM service unavailable'' else m
                                    | None \<Rightarrow> ''LLM service unavailable''),
             refError = None\<rparr>\<rparr>"
    unfolding r i5 by simp
next
  show "ticketBlock t = ''**Ticket #'' @ toStr (ticketId t) @ ''** (''
         @ (if truthy (ticketPriority t) then toStr (ticketPriority t) else ''Unknown'')
         @ '' Priority)\<newline>''
       @ ''**Subject:** '' @ toStr (ticketSubject t) @ ''\<newline>''
       @ ''**Product:** '' @ toStr (productPurchased t) @ ''\<newline>''
       @ ''**Status:** '' @ toStr (ticketStatus t) @ ''\<newline>''
       @ (if truthy (ticketDescription t)
          then ''**Issue:** '' @ take 150 (toStr (ticketDescription t))
               @ (if length (toStr (ticketDescription t)) > 150 then ''...'' else '''')
               @ ''\<newline>''
          else '''')
       @ (if truthy (resolution t)
          then ''**Resolution:** '' @ take 200 (toStr (resolution t))
               @ (if length (toStr (resolution t)) > 200 then ''...'' else '''')
               @ ''\<newline>''
          else '''')
       @ ''\<newline>''"
    by (simp add: ticketBlock_def truncated_def substring0_def)
qed

text \<open>
  Claim C10. The template answer of a non-empty ticket list ends with the ticket part,
  then at most one tip block, then the closing note. The tip block is chosen by the
  lower-cased query in a fixed order: the battery tips when it contains \<open>battery\<close>;
  otherwise the camera tips when it contains \<open>camera\<close> or \<open>recording\<close>; otherwise the
  setup tips when it contains \<open>setup\<close> or \<open>install\<close>; otherwise nothing. A query
  that names several categories gets the tips of the first one in this order only.
\<close>

theorem tip_block_precedence:
  "tickets \<noteq> [] \<Longrightarrow>
   answer (generateFallbackResponse userQuery tickets err) =
     trim (renderLoop (length tickets) 0 tickets (fallbackIntro userQuery (length tickets))
           @ generalGuidance userQuery @ fallbackNote)
   \<and> generalGuidance userQuery \<in> set ['''', batteryTips, cameraTips, setupTips]
   \<and> (includes_js (toLowerCase userQuery) ''battery'' \<longrightarrow> generalGuidance userQuery = batteryTips)
   \<and> (\<not> includes_js (toLowerCase userQuery) ''battery''
        \<and> (includes_js (toLowerCase userQuery) ''camera''
             \<or> includes_js (toLowerCase userQuery) ''recording'')
        \<longrightarrow> generalGuidance userQuery = cameraTips)
   \<and> (\<not> includes_js (toLowerCase userQuery) ''battery''
        \<and> \<not> includes_js (toLowerCase userQuery) ''camera''
        \<and> \<not> includes_js (toLowerCase userQuery) ''recording''
        \<and> (includes_js (toLowerCase userQuery) ''setup''
             \<or> includes_js (toLowerCase userQuery) ''install'')
        \<longrightarrow> generalGuidance userQuery = setupTips)
   \<and> (\<not> includes_js (toLowerCase userQuery) ''battery''
        \<and> \<not> includes_js (toLowerCase userQuery) ''camera''
        \<and> \<not> includes_js (toLowerCase userQuery) ''recording''
        \<and> \<not> includes_js (toLowerCase userQuery) ''setup''
        \<and> \<not> includes_js (toLowerCase userQuery) ''install''
        \<longrightarrow> generalGuidance userQuery = '''')"
  by (simp add: generateFallbackResponse_def generalGuidance_def Let_def)

text \<open>A query that names the camera, the battery and the setup gets the battery tips.\<close>

theorem tip_block_precedence_witness:
  "[ticketA] \<noteq> []
   \<and> includes_js (toLowerCase ''My camera battery dies during setup'') ''battery''
   \<and> includes_js (toLowerCase ''My camera battery dies during setup'') ''camera''
   \<and> includes_js (toLowerCase ''My camera battery dies during setup'') ''setup''
   \<and> generalGuidance ''My camera battery dies during setup'' = batteryTips
   \<and> answer (generateFallbackResponse ''My camera battery dies during setup'' [ticketA]
               quotaError) =
       trim (renderLoop 1 0 [ticketA] (fallbackIntro ''My camera battery dies during setup'' 1)
             @ batteryTips @ fallbackNote)"
proof -
  have b: "includes_js (toLowerCase ''My camera battery dies during setup'') ''battery''"
    by code_simp
  have c: "includes_js (toLowerCase ''My camera battery dies during setup'') ''camera''"
    by code_simp
  have s: "includes_js (toLowerCase ''My camera battery dies during setup'') ''setup''"
    by code_simp
  have n: "[ticketA] \<noteq> []" by simp
  show ?thesis
    using tip_block_precedence [OF n, of "''My camera battery dies during setup''" quotaError]
      b c s
    by simp
qed

section \<open>The retrieval cascade\<close>

lemma fetch_empty:
  "rawFailsOrEmpty (dataGetter st (keywordWhere q t) l) \<Longrightarrow>
     snd (fetchObjectsFallback st q t l) = TicketArray []"
  by (auto simp: rawFailsOrEmpty_def fetchObjectsFallback_def Let_def
      split: outcome.splits raw_result.splits)

lemma fetch_empty_upd:
  "rawFailsOrEmpty (dataGetter st (queryWhere_upd q t) l) \<Longrightarrow>
     snd (fetchObjectsFallback_upd st q t l) = TicketArray []"
  by (auto simp: rawFailsOrEmpty_def fetchObjectsFallback_upd_def Let_def
      split: outcome.splits raw_result.splits)

lemma fallback_empty:
  "failsOrEmpty (graphqlGet st (keywordRequest q t l)) \<Longrightarrow>
   rawFailsOrEmpty (dataGetter st (keywordWhere q t) l) \<Longrightarrow>
     snd (fallbackSearch st q t l) = TicketArray []"
  using fetch_empty [of st q t l]
  by (auto simp: failsOrEmpty_def fallbackSearch_def fallbackSearchCatch_def keywordRequest_def
      Let_def split: outcome.splits gql_data.splits option.splits prod.splits)

lemma fallback_empty_upd:
  "failsOrEmpty (graphqlGet st (queryRequest_upd q t l)) \<Longrightarrow>
   rawFailsOrEmpty (dataGetter st (queryWhere_upd q t) l) \<Longrightarrow>
     snd (fallbackSearch_upd st q t l) = TicketArray []"
  using fetch_empty_upd [of st q t l]
  by (auto simp: failsOrEmpty_def fallbackSearch_upd_def fallbackSearchCatch_upd_def
      queryRequest_upd_def Let_def
      split: outcome.splits gql_data.splits option.splits prod.splits)

lemma search_empty:
  "semanticFailsOrEmpty (graphqlGet st (semanticRequest q t l)) \<Longrightarrow>
   failsOrEmpty (graphqlGet st (keywordRequest q t l)) \<Longrightarrow>
   rawFailsOrEmpty (dataGetter st (keywordWhere q t) l) \<Longrightarrow>
     snd (searchTickets st q t l) = TicketArray []"
  using fallback_empty [of st q t l]
  by (auto simp: semanticFailsOrEmpty_def failsOrEmpty_def searchTickets_def
      searchTicketsCatch_def Let_def
      split: outcome.splits gql_data.splits option.splits prod.splits list.splits)

lemma search_empty_upd:
  "semanticFailsOrEmpty (graphqlGet st (semanticRequest q t l)) \<Longrightarrow>
   failsOrEmpty (graphqlGet st (queryRequest_upd q t l)) \<Longrightarrow>
   rawFailsOrEmpty (dataGetter st (queryWhere_upd q t) l) \<Longrightarrow>
     snd (searchTickets_upd st q t l) = TicketArray []"
  using fallback_empty_upd [of st q t l]
  by (auto simp: semanticFailsOrEmpty_def failsOrEmpty_def searchTickets_upd_def
      searchTicketsCatch_upd_def Let_def
      split: outcome.splits gql_data.splits option.splits prod.splits list.splits)

lemma connError_upd: "isConnectionError_upd connError"
  by code_simp

lemma connError_cl: "isConnectionError (detectErrorType connError)"
  by code_simp

lemma embeddingError_upd: "\<not> isConnectionError_upd embeddingError" "isTransformerError_upd embeddingError"
  by code_simp+

lemma embeddingError_cl: "\<not> isConnectionError (detectErrorType embeddingError)"
   "isTransformerError (detectErrorType embeddingError)"
  by code_simp+

text \<open>
  Claim C2. For every query, tenant and limit, in ragAgent.js and in the cleaned copy
  alike: when the semantic query throws an error that the code classifies as a connection
  failure, the search returns the empty array and the semantic query is the only call made;
  when the semantic query throws any other error and the structured query throws a
  connection failure, the search returns the empty array after these two calls, without
  calling the object API; and when each of the three tiers fails or returns nothing, the
  search returns the empty array. The search functions return a value on every path: each
  body is one \<open>try\<close> whose \<open>catch\<close> returns.
\<close>

theorem transport_failure_returns_empty:
  "(graphqlGet st (semanticRequest q t l) = Throws e1 \<and> isConnectionError_upd e1
      \<longrightarrow> searchTickets_upd st q t l = ([GraphQLGet (semanticRequest q t l)], TicketArray []))
   \<and> (graphqlGet st (semanticRequest q t l) = Throws e1 \<and> \<not> isConnectionError_upd e1
        \<and> graphqlGet st (queryRequest_upd q t l) = Throws e2 \<and> isConnectionError_upd e2
      \<longrightarrow> searchTickets_upd st q t l =
            ([GraphQLGet (semanticRequest q t l), GraphQLGet (queryRequest_upd q t l)],
             TicketArray []))
   \<and> (semanticFailsOrEmpty (graphqlGet st (semanticRequest q t l))
        \<and> failsOrEmpty (graphqlGet st (queryRequest_upd q t l))
        \<and> rawFailsOrEmpty (dataGetter st (queryWhere_upd q t) l)
      \<longrightarrow> snd (searchTickets_upd st q t l) = TicketArray [])
   \<and> (graphqlGet st (semanticRequest q t l) = Throws e1
        \<and> isConnectionError (detectErrorType e1)
      \<longrightarrow> searchTickets st q t l = ([GraphQLGet (semanticRequest q t l)], TicketArray []))
   \<and> (graphqlGet st (semanticRequest q t l) = Throws e1
        \<and> \<not> isConnectionError (detectErrorType e1)
        \<and> graphqlGet st (keywordRequest q t l) = Throws e2
        \<and> isConnectionError (detectErrorType e2)
      \<longrightarrow> searchTickets st q t l =
            ([GraphQLGet (semanticRequest q t l), GraphQLGet (keywordRequest q t l)],
             TicketArray []))
   \<and> (semanticFailsOrEmpty (graphqlGet st (semanticRequest q t l))
        \<and> failsOrEmpty (graphqlGet st (keywordRequest q t l))
        \<and> rawFailsOrEmpty (dataGetter st (keywordWhere q t) l)
      \<longrightarrow> snd (searchTickets st q t l) = TicketArray [])"
proof (intro conjI impI)
  assume "graphqlGet st (semanticRequest q t l) = Throws e1 \<and> isConnectionError_upd e1"
  then show "searchTickets_upd st q t l = ([GraphQLGet (semanticRequest q t l)], TicketArray [])"
    by (simp add: searchTickets_upd_def searchTicketsCatch_upd_def Let_def)
next
  assume "graphqlGet st (semanticRequest q t l) = Throws e1 \<and> \<not> isConnectionError_upd e1
        \<and> graphqlGet st (queryRequest_upd q t l) = Throws e2 \<and> isConnectionError_upd e2"
  then show "searchTickets_upd st q t l =
            ([GraphQLGet (semanticRequest q t l), GraphQLGet (queryRequest_upd q t l)],
             TicketArray [])"
    by (simp add: searchTickets_upd_def searchTicketsCatch_upd_def fallbackSearch_upd_def
        fallbackSearchCatch_upd_def queryRequest_upd_def Let_def)
next
  assume "semanticFailsOrEmpty (graphqlGet st (semanticRequest q t l))
        \<and> failsOrEmpty (graphqlGet st (queryRequest_upd q t l))
        \<and> rawFailsOrEmpty (dataGetter st (queryWhere_upd q t) l)"
  then show "snd (searchTickets_upd st q t l) = TicketArray []"
    by (simp add: search_empty_upd)
next
  assume "graphqlGet st (semanticRequest q t l) = Throws e1
        \<and> isConnectionError (detectErrorType e1)"
  then show "searchTickets st q t l = ([GraphQLGet (semanticRequest q t l)], TicketArray [])"
    by (simp add: searchTickets_def searchTicketsCatch_def Let_def)
next
  assume "graphqlGet st (semanticRequest q t l) = Throws e1
        \<and> \<not> isConnectionError (detectErrorType e1)
        \<and> graphqlGet st (keywordRequest q t l) = Throws e2
        \<and> isConnectionError (detectErrorType e2)"
  then show "searchTickets st q t l =
            ([GraphQLGet (semanticRequest q t l), GraphQLGet (keywordRequest q t l)],
             TicketArray [])"
    by (simp add: searchTickets_def searchTicketsCatch_def fallbackSearch_def
        fallbackSearchCatch_def keywordRequest_def Let_def)
next
  assume "semanticFailsOrEmpty (graphqlGet st (semanticRequest q t l))
        \<and> failsOrEmpty (graphqlGet st (keywordRequest q t l))
        \<and> rawFailsOrEmpty (dataGetter st (keywordWhere q t) l)"
  then show "snd (searchTickets st q t l) = TicketArray []"
    by (simp add: search_empty)
qed

theorem transport_failure_returns_empty_witness:
  "graphqlGet downStore (semanticRequest ''battery issue'' Null 5) = Throws connError
   \<and> isConnectionError_upd connError \<and> isConnectionError (detectErrorType connError)
   \<and> searchTickets_upd downStore ''battery issue'' Null 5 =
       ([GraphQLGet (semanticRequest ''battery issue'' Null 5)], TicketArray [])
   \<and> searchTickets downStore ''battery issue'' Null 5 =
       ([GraphQLGet (semanticRequest ''battery issue'' Null 5)], TicketArray [])
   \<and> graphqlGet halfDownStore (semanticRequest ''battery issue'' Null 5) = Throws embeddingError
   \<and> graphqlGet halfDownStore (queryRequest_upd ''battery issue'' Null 5) = Throws connError
   \<and> graphqlGet halfDownStore (keywordRequest ''battery issue'' Null 5) = Throws connError
   \<and> searchTickets_upd halfDownStore ''battery issue'' Null 5 =
       ([GraphQLGet (semanticRequest ''battery issue'' Null 5),
         GraphQLGet (queryRequest_upd ''battery issue'' Null 5)], TicketArray [])
   \<and> searchTickets halfDownStore ''battery issue'' Null 5 =
       ([GraphQLGet (semanticRequest ''battery issue'' Null 5),
         GraphQLGet (keywordRequest ''battery issue'' Null 5)], TicketArray [])
   \<and> snd (searchTickets_upd brokenStore ''battery issue'' Null 5) = TicketArray []
   \<and> snd (searchTickets brokenStore ''battery issue'' Null 5) = TicketArray []"
proof -
  let ?q = "''battery issue''"
  have d: "graphqlGet downStore (semanticRequest ?q Null 5) = Throws connError"
    by (simp add: downStore_def)
  have h1: "graphqlGet halfDownStore (semanticRequest ?q Null 5) = Throws embeddingError"
    by (simp add: halfDownStore_def semanticRequest_def)
  have h2: "graphqlGet halfDownStore (queryRequest_upd ?q Null 5) = Throws connError"
    by (simp add: halfDownStore_def queryRequest_upd_def)
  have h3: "graphqlGet halfDownStore (keywordRequest ?q Null 5) = Throws connError"
    by (simp add: halfDownStore_def keywordRequest_def)
  have b: "semanticFailsOrEmpty (graphqlGet brokenStore (semanticRequest ?q Null 5))"
     "failsOrEmpty (graphqlGet brokenStore (queryRequest_upd ?q Null 5))"
     "rawFailsOrEmpty (dataGetter brokenStore (queryWhere_upd ?q Null) 5)"
     "failsOrEmpty (graphqlGet brokenStore (keywordRequest ?q Null 5))"
     "rawFailsOrEmpty (dataGetter brokenStore (keywordWhere ?q Null) 5)"
    by (simp_all add: brokenStore_def semanticFailsOrEmpty_def failsOrEmpty_def
        rawFailsOrEmpty_def)
  show ?thesis
    using transport_failure_returns_empty [of downStore ?q Null 5 connError connError]
      transport_failure_returns_empty [of halfDownStore ?q Null 5 embeddingError connError]
      transport_failure_returns_empty [of brokenStore ?q Null 5 serverError serverError]
      d h1 h2 h3 b connError_upd connError_cl embeddingError_upd embeddingError_cl
    by simp
qed

lemma keywordOnlyStore_calls:
  "graphqlGet (keywordOnlyStore ts raw) (semanticRequest q t l) = Throws embeddingError"
  "graphqlGet (keywordOnlyStore ts raw) (keywordRequest q t l) =
     Returns \<lparr>errors = [], data = ClassList (Some ts)\<rparr>"
  "graphqlGet (keywordOnlyStore ts raw) (queryRequest_upd q t l) =
     Returns \<lparr>errors = [], data = ClassList (Some ts)\<rparr>"
  "dataGetter (keywordOnlyStore ts raw) f l = Returns raw"
  by (simp_all add: keywordOnlyStore_def semanticRequest_def keywordRequest_def
      queryRequest_upd_def)

text \<open>
  Claim C5, as amended. The search returns the bare ticket array: it carries no tier
  marker. When the first tier fails with an embedding failure and the structured query
  returns at least one ticket, the search returns exactly these tickets, in the same
  order and number, after the two calls of tier 1 and tier 2. When the structured query
  returns no ticket, the cleaned copy goes on to the object API and returns what that
  tier returns, while ragAgent.js returns the empty array without a third call.
\<close>

theorem keyword_tier_result:
  "(embeddingFailure (graphqlGet st (semanticRequest q t l))
      \<and> returnsTickets (graphqlGet st (keywordRequest q t l)) ts \<and> ts \<noteq> []
    \<longrightarrow> searchTickets st q t l =
          ([GraphQLGet (semanticRequest q t l), GraphQLGet (keywordRequest q t l)],
           TicketArray ts))
   \<and> (embeddingFailure (graphqlGet st (semanticRequest q t l))
      \<and> returnsTickets (graphqlGet st (keywordRequest q t l)) []
    \<longrightarrow> searchTickets st q t l =
          ([GraphQLGet (semanticRequest q t l), GraphQLGet (keywordRequest q t l),
            DataGetter (keywordWhere q t) l],
           snd (fetchObjectsFallback st q t l)))
   \<and> (embeddingFailure_upd (graphqlGet st (semanticRequest q t l))
      \<and> returnsTickets (graphqlGet st (queryRequest_upd q t l)) ts \<and> ts \<noteq> []
    \<longrightarrow> searchTickets_upd st q t l =
          ([GraphQLGet (semanticRequest q t l), GraphQLGet (queryRequest_upd q t l)],
           TicketArray ts))
   \<and> (embeddingFailure_upd (graphqlGet st (semanticRequest q t l))
      \<and> returnsTickets (graphqlGet st (queryRequest_upd q t l)) []
    \<longrightarrow> searchTickets_upd st q t l =
          ([GraphQLGet (semanticRequest q t l), GraphQLGet (queryRequest_upd q t l)],
           TicketArray []))"
proof (intro conjI impI)
  assume a: "embeddingFailure (graphqlGet st (semanticRequest q t l))
      \<and> returnsTickets (graphqlGet st (keywordRequest q t l)) ts \<and> ts \<noteq> []"
  then have fb: "fallbackSearch st q t l = ([GraphQLGet (keywordRequest q t l)], TicketArray ts)"
    by (auto simp: returnsTickets_def fallbackSearch_def keywordRequest_def Let_def
        split: outcome.splits gql_data.splits option.splits)
  from a show "searchTickets st q t l =
          ([GraphQLGet (semanticRequest q t l), GraphQLGet (keywordRequest q t l)],
           TicketArray ts)"
    by (auto simp: embeddingFailure_def searchTickets_def searchTicketsCatch_def fb Let_def
        split: outcome.splits list.splits)
next
  assume a: "embeddingFailure (graphqlGet st (semanticRequest q t l))
      \<and> returnsTickets (graphqlGet st (keywordRequest q t l)) []"
  then have fb: "fallbackSearch st q t l =
      ([GraphQLGet (keywordRequest q t l), DataGetter (keywordWhere q t) l],
       snd (fetchObjectsFallback st q t l))"
    by (auto simp: returnsTickets_def fallbackSearch_def keywordRequest_def Let_def
        fetchObjectsFallback_def
        split: outcome.splits gql_data.splits option.splits)
  from a show "searchTickets st q t l =
          ([GraphQLGet (semanticRequest q t l), GraphQLGet (keywordRequest q t l),
            DataGetter (keywordWhere q t) l],
           snd (fetchObjectsFallback st q t l))"
    by (auto simp: embeddingFailure_def searchTickets_def searchTicketsCatch_def fb Let_def
        split: outcome.splits list.splits)
next
  assume a: "embeddingFailure_upd (graphqlGet st (semanticRequest q t l))
      \<and> returnsTickets (graphqlGet st (queryRequest_upd q t l)) ts \<and> ts \<noteq> []"
  then have fb: "fallbackSearch_upd st q t l =
      ([GraphQLGet (queryRequest_upd q t l)], TicketArray ts)"
    by (auto simp: returnsTickets_def fallbackSearch_upd_def queryRequest_upd_def Let_def
        split: outcome.splits gql_data.splits option.splits)
  from a show "searchTickets_upd st q t l =
          ([GraphQLGet (semanticRequest q t l), GraphQLGet (queryRequest_upd q t l)],
           TicketArray ts)"
    by (auto simp: embeddingFailure_upd_def searchTickets_upd_def searchTicketsCatch_upd_def
        fb Let_def split: outcome.splits list.splits)
next
  assume a: "embeddingFailure_upd (graphqlGet st (semanticRequest q t l))
      \<and> returnsTickets (graphqlGet st (queryRequest_upd q t l)) []"
  then have fb: "fallbackSearch_upd st q t l =
      ([GraphQLGet (queryRequest_upd q t l)], TicketArray [])"
    by (auto simp: returnsTickets_def fallbackSearch_upd_def queryRequest_upd_def Let_def
        split: outcome.splits gql_data.splits option.splits)
  from a show "searchTickets_upd st q t l =
          ([GraphQLGet (semanticRequest q t l), GraphQLGet (queryRequest_upd q t l)],
           TicketArray [])"
    by (auto simp: embeddingFailure_upd_def searchTickets_upd_def searchTicketsCatch_upd_def
        fb Let_def split: outcome.splits list.splits)
qed

theorem keyword_tier_result_witness:
  "embeddingFailure (graphqlGet (keywordOnlyStore [ticketA] RawFalsy) (semanticRequest ''battery issue'' Null 5))
   \<and> returnsTickets (graphqlGet (keywordOnlyStore [ticketA] RawFalsy) (keywordRequest ''battery issue'' Null 5)) [ticketA]
   \<and> searchTickets (keywordOnlyStore [ticketA] RawFalsy) ''battery issue'' Null 5 =
       ([GraphQLGet (semanticRequest ''battery issue'' Null 5),
         GraphQLGet (keywordRequest ''battery issue'' Null 5)], TicketArray [ticketA])
   \<and> searchTickets_upd (keywordOnlyStore [ticketA] RawFalsy) ''battery issue'' Null 5 =
       ([GraphQLGet (semanticRequest ''battery issue'' Null 5),
         GraphQLGet (queryRequest_upd ''battery issue'' Null 5)], TicketArray [ticketA])
   \<and> searchTickets (keywordOnlyStore [] (RawArray [ticketA])) ''battery issue'' Null 5 =
       ([GraphQLGet (semanticRequest ''battery issue'' Null 5),
         GraphQLGet (keywordRequest ''battery issue'' Null 5),
         DataGetter (keywordWhere ''battery issue'' Null) 5], TicketArray [ticketA])"
proof -
  let ?q = "''battery issue''"
  have e: "embeddingFailure (Throws embeddingError)" "embeddingFailure_upd (Throws embeddingError)"
    by (simp_all add: embeddingFailure_def embeddingFailure_upd_def embeddingError_cl
        embeddingError_upd)
  have r: "returnsTickets (Returns \<lparr>errors = [], data = ClassList (Some ts)\<rparr>) ts" for ts
    by (simp add: returnsTickets_def)
  have f: "snd (fetchObjectsFallback (keywordOnlyStore [] (RawArray [ticketA])) ?q Null 5)
      = TicketArray [ticketA]"
    by (simp add: fetchObjectsFallback_def keywordOnlyStore_calls Let_def)
  show ?thesis
    using keyword_tier_result [of "keywordOnlyStore [ticketA] RawFalsy" ?q Null 5 "[ticketA]"]
      keyword_tier_result [of "keywordOnlyStore [] (RawArray [ticketA])" ?q Null 5 "[]"]
      e r f
    by (simp add: keywordOnlyStore_calls)
qed

text \<open>
  The claim as stated fails. In ragAgent.js a structured query with no ticket ends the
  search, though the object API would have returned a ticket; and a search answered by
  the first tier and one answered by the second return the same value, so the value
  tells nothing of the tier.
\<close>

theorem keyword_tier_counterexample:
  "searchTickets_upd (keywordOnlyStore [] (RawArray [ticketA])) ''battery issue'' Null 5 =
     ([GraphQLGet (semanticRequest ''battery issue'' Null 5),
       GraphQLGet (queryRequest_upd ''battery issue'' Null 5)], TicketArray [])
   \<and> dataGetter (keywordOnlyStore [] (RawArray [ticketA])) (queryWhere_upd ''battery issue'' Null) 5
       = Returns (RawArray [ticketA])
   \<and> snd (searchTickets (semanticStore [ticketA]) ''battery issue'' Null 5) = TicketArray [ticketA]
   \<and> snd (searchTickets (keywordOnlyStore [ticketA] RawFalsy) ''battery issue'' Null 5)
       = TicketArray [ticketA]"
  by (simp add: searchTickets_upd_def searchTickets_def searchTicketsCatch_upd_def
      searchTicketsCatch_def fallbackSearch_upd_def fallbackSearch_def
      keywordOnlyStore_calls semanticStore_def embeddingError_upd embeddingError_cl Let_def
      queryRequest_upd_def [symmetric] keywordRequest_def [symmetric])

lemma splitAcc_no_whitespace:
  "list_all (\<lambda>c. \<not> isWhitespace c) cur \<Longrightarrow>
     list_all (\<lambda>w. \<not> list_ex isWhitespace w) (splitAcc s cur b)"
proof (induction s arbitrary: cur b)
  case Nil
  then show ?case by (simp add: list_all_iff list_ex_iff)
next
  case (Cons c cs)
  have 1: "list_all (\<lambda>w. \<not> list_ex isWhitespace w) (splitAcc cs cur True)"
    using Cons by blast
  have 2: "list_all (\<lambda>w. \<not> list_ex isWhitespace w) (splitAcc cs [] True)"
    by (rule Cons.IH) simp
  have 3: "\<not> isWhitespace c \<Longrightarrow>
      list_all (\<lambda>w. \<not> list_ex isWhitespace w) (splitAcc cs (c # cur) False)"
    using Cons.prems by (intro Cons.IH) simp
  have 4: "\<not> list_ex isWhitespace (rev cur)"
    using Cons.prems by (simp add: list_all_iff list_ex_iff)
  show ?case using 1 2 3 4 by simp
qed

lemma extractKeywords_props:
  "length (extractKeywords q) \<le> 3"
  "list_all (\<lambda>k. 2 < length k \<and> \<not> list_ex isWhitespace k) (extractKeywords q)"
proof -
  show "length (extractKeywords q) \<le> 3" by (simp add: extractKeywords_def)
  have "list_all (\<lambda>w. \<not> list_ex isWhitespace w) (splitWhitespace (toLowerCase q))"
    unfolding splitWhitespace_def by (rule splitAcc_no_whitespace) simp
  then show "list_all (\<lambda>k. 2 < length k \<and> \<not> list_ex isWhitespace k) (extractKeywords q)"
    unfolding extractKeywords_def list_all_iff
    by (auto dest: in_set_takeD)
qed

lemma splitAcc_pieces:
  "(b \<longrightarrow> cur = []) \<Longrightarrow> list_all (\<lambda>w. sublist w (rev cur @ s)) (splitAcc s cur b)"
proof (induction s arbitrary: cur b)
  case Nil
  then show ?case by simp
next
  case (Cons c cs)
  show ?case
  proof (cases "isWhitespace c")
    case True
    have 1: "list_all (\<lambda>w. sublist w cs) (splitAcc cs [] True)"
      using Cons.IH [of True "[]"] by simp
    have 2: "list_all (\<lambda>w. sublist w (rev cur @ c # cs)) (splitAcc cs [] True)"
      using 1 unfolding list_all_iff
      by (metis append.assoc append_Cons append_Nil sublist_append_leftI sublist_appendI sublist_order.order.trans sublist_Cons_right)
    have 3: "sublist (rev cur) (rev cur @ c # cs)" by simp
    show ?thesis
    proof (cases b)
      case True
      then have "cur = []" using Cons.prems by simp
      then show ?thesis using \<open>isWhitespace c\<close> True 2 by simp
    next
      case False
      then show ?thesis using \<open>isWhitespace c\<close> 2 3 by simp
    qed
  next
    case False
    have "list_all (\<lambda>w. sublist w (rev (c # cur) @ cs)) (splitAcc cs (c # cur) False)"
      by (rule Cons.IH) simp
    then show ?thesis using False by simp
  qed
qed

lemma extractKeywords_pieces:
  "list_all (\<lambda>k. sublist k (toLowerCase q)) (extractKeywords q)"
proof -
  have "list_all (\<lambda>w. sublist w (toLowerCase q)) (splitWhitespace (toLowerCase q))"
    using splitAcc_pieces [of False "[]" "toLowerCase q"] by (simp add: splitWhitespace_def)
  then show ?thesis
    unfolding extractKeywords_def list_all_iff by (auto dest: in_set_takeD)
qed

lemma keywords_example:
  "extractKeywords ''How do I fix  my Battery issue'' = [''how'', ''fix'', ''battery'']"
  by code_simp

text \<open>
  Claim C6, as amended. In the cleaned copy the structured search and the object search
  build the same filter: up to three keywords (the lower-cased query split at white
  space, the pieces of length at most 2 dropped, the first three kept in order; a keyword
  is longer than 2, holds no white space and is a contiguous part of the lower-cased
  query), for each keyword a disjunction of
  \<open>Like *keyword*\<close> on subject, description and product, the disjunction of these, and
  around it a conjunction with \<open>Equal tenant\<close> on the product when a tenant is given.
  In ragAgent.js both searches build another filter: \<open>Like *query*\<close> with the whole
  query as typed, on subject and description only, under the same tenant conjunction.
\<close>

theorem keyword_filter_construction:
  "fst (fetchObjectsFallback st q t l) = [DataGetter (keywordWhere q t) l]
   \<and> (\<exists>rest. fst (fallbackSearch st q t l) =
          GraphQLGet \<lparr>nearText = None, whereClause = Some (keywordWhere q t), limit = l\<rparr> # rest
        \<and> (rest = [] \<or> rest = [DataGetter (keywordWhere q t) l]))
   \<and> keywordWhere q t =
       (let conds = map (\<lambda>k. Operands OpOr
                            [Condition [''ticketSubject''] OpLike (''*'' @ k @ ''*''),
                             Condition [''ticketDescription''] OpLike (''*'' @ k @ ''*''),
                             Condition [''productPurchased''] OpLike (''*'' @ k @ ''*'')])
                        (extractKeywords q)
        in if truthy t
           then Operands OpAnd
                  [Condition [''productPurchased''] OpEqual (toStr t), Operands OpOr conds]
           else Operands OpOr conds)
   \<and> extractKeywords q =
       take 3 (filter (\<lambda>w. 2 < length w) (splitWhitespace (toLowerCase q)))
   \<and> length (extractKeywords q) \<le> 3
   \<and> list_all (\<lambda>k. 2 < length k \<and> \<not> list_ex isWhitespace k) (extractKeywords q)
   \<and> list_all (\<lambda>k. sublist k (toLowerCase q)) (extractKeywords q)
   \<and> fst (fetchObjectsFallback_upd st q t l) = [DataGetter (queryWhere_upd q t) l]
   \<and> (\<exists>rest. fst (fallbackSearch_upd st q t l) =
          GraphQLGet \<lparr>nearText = None, whereClause = Some (queryWhere_upd q t), limit = l\<rparr> # rest
        \<and> (rest = [] \<or> rest = [DataGetter (queryWhere_upd q t) l]))
   \<and> queryWhere_upd q t =
       (let conds = [Condition [''ticketSubject''] OpLike (''*'' @ q @ ''*''),
                     Condition [''ticketDescription''] OpLike (''*'' @ q @ ''*'')]
        in if truthy t
           then Operands OpAnd
                  [Condition [''productPurchased''] OpEqual (toStr t), Operands OpOr conds]
           else Operands OpOr conds)"
proof (intro conjI)
  show "fst (fetchObjectsFallback st q t l) = [DataGetter (keywordWhere q t) l]"
    by (simp add: fetchObjectsFallback_def Let_def)
  show "\<exists>rest. fst (fallbackSearch st q t l) =
          GraphQLGet \<lparr>nearText = None, whereClause = Some (keywordWhere q t), limit = l\<rparr> # rest
        \<and> (rest = [] \<or> rest = [DataGetter (keywordWhere q t) l])"
    by (auto simp: fallbackSearch_def fallbackSearchCatch_def fetchObjectsFallback_def Let_def
        split: outcome.splits gql_data.splits option.splits prod.splits)
  show "keywordWhere q t =
       (let conds = map (\<lambda>k. Operands OpOr
                            [Condition [''ticketSubject''] OpLike (''*'' @ k @ ''*''),
                             Condition [''ticketDescription''] OpLike (''*'' @ k @ ''*''),
                             Condition [''productPurchased''] OpLike (''*'' @ k @ ''*'')])
                        (extractKeywords q)
        in if truthy t
           then Operands OpAnd
                  [Condition [''productPurchased''] OpEqual (toStr t), Operands OpOr conds]
           else Operands OpOr conds)"
    by (simp add: keywordWhere_def createKeywordConditions_def Let_def)
  show "extractKeywords q =
       take 3 (filter (\<lambda>w. 2 < length w) (splitWhitespace (toLowerCase q)))"
    by (simp add: extractKeywords_def)
  show "length (extractKeywords q) \<le> 3"
    by (rule extractKeywords_props)
  show "list_all (\<lambda>k. 2 < length k \<and> \<not> list_ex isWhitespace k) (extractKeywords q)"
    by (rule extractKeywords_props)
  show "list_all (\<lambda>k. sublist k (toLowerCase q)) (extractKeywords q)"
    by (rule extractKeywords_pieces)
  show "fst (fetchObjectsFallback_upd st q t l) = [DataGetter (queryWhere_upd q t) l]"
    by (simp add: fetchObjectsFallback_upd_def Let_def)
  show "\<exists>rest. fst (fallbackSearch_upd st q t l) =
          GraphQLGet \<lparr>nearText = None, whereClause = Some (queryWhere_upd q t), limit = l\<rparr> # rest
        \<and> (rest = [] \<or> rest = [DataGetter (queryWhere_upd q t) l])"
    by (auto simp: fallbackSearch_upd_def fallbackSearchCatch_upd_def
        fetchObjectsFallback_upd_def Let_def
        split: outcome.splits gql_data.splits option.splits prod.splits)
  show "queryWhere_upd q t =
       (let conds = [Condition [''ticketSubject''] OpLike (''*'' @ q @ ''*''),
                     Condition [''ticketDescription''] OpLike (''*'' @ q @ ''*'')]
        in if truthy t
           then Operands OpAnd
                  [Condition [''productPurchased''] OpEqual (toStr t), Operands OpOr conds]
           else Operands OpOr conds)"
    by (simp add: queryWhere_upd_def Let_def)
qed

theorem keyword_filter_construction_witness:
  "fst (fallbackSearch brokenStore ''How do I fix  my Battery issue'' (Text ''iPhone'') 5) =
     [GraphQLGet \<lparr>nearText = None,
        whereClause = Some (keywordWhere ''How do I fix  my Battery issue'' (Text ''iPhone'')),
        limit = 5\<rparr>,
      DataGetter (keywordWhere ''How do I fix  my Battery issue'' (Text ''iPhone'')) 5]
   \<and> keywordWhere ''How do I fix  my Battery issue'' (Text ''iPhone'') =
       Operands OpAnd
         [Condition [''productPurchased''] OpEqual ''iPhone'',
          Operands OpOr
            [Operands OpOr [Condition [''ticketSubject''] OpLike ''*how*'',
                            Condition [''ticketDescription''] OpLike ''*how*'',
                            Condition [''productPurchased''] OpLike ''*how*''],
             Operands OpOr [Condition [''ticketSubject''] OpLike ''*fix*'',
                            Condition [''ticketDescription''] OpLike ''*fix*'',
                            Condition [''productPurchased''] OpLike ''*fix*''],
             Operands OpOr [Condition [''ticketSubject''] OpLike ''*battery*'',
                            Condition [''ticketDescription''] OpLike ''*battery*'',
                            Condition [''productPurchased''] OpLike ''*battery*'']]]"
proof -
  have n: "\<not> isConnectionError (detectErrorType serverError)" by code_simp
  have 1: "fst (fallbackSearch brokenStore ''How do I fix  my Battery issue'' (Text ''iPhone'') 5) =
     [GraphQLGet \<lparr>nearText = None,
        whereClause = Some (keywordWhere ''How do I fix  my Battery issue'' (Text ''iPhone'')),
        limit = 5\<rparr>,
      DataGetter (keywordWhere ''How do I fix  my Battery issue'' (Text ''iPhone'')) 5]"
    using n by (simp add: fallbackSearch_def fallbackSearchCatch_def fetchObjectsFallback_def
        brokenStore_def Let_def)
  show ?thesis
    using keyword_filter_construction
      [of brokenStore "''How do I fix  my Battery issue''" "Text ''iPhone''" 5] 1
    by (simp add: keywords_example Let_def)
qed

text \<open>
  The claim as stated fails on ragAgent.js: the filter of its two fallback searches holds
  the whole query, not lower-cased and not split, and no condition on the product, where
  the keywords of the same query are \<open>how\<close>, \<open>fix\<close> and \<open>battery\<close>.
\<close>

theorem keyword_filter_counterexample:
  "fst (fallbackSearch_upd brokenStore ''How do I fix  my Battery issue'' (Text ''iPhone'') 5) =
     [GraphQLGet \<lparr>nearText = None,
        whereClause = Some (Operands OpAnd
          [Condition [''productPurchased''] OpEqual ''iPhone'',
           Operands OpOr
             [Condition [''ticketSubject''] OpLike ''*How do I fix  my Battery issue*'',
              Condition [''ticketDescription''] OpLike ''*How do I fix  my Battery issue*'']]),
        limit = 5\<rparr>,
      DataGetter (Operands OpAnd
          [Condition [''productPurchased''] OpEqual ''iPhone'',
           Operands OpOr
             [Condition [''ticketSubject''] OpLike ''*How do I fix  my Battery issue*'',
              Condition [''ticketDescription''] OpLike ''*How do I fix  my Battery issue*'']]) 5]
   \<and> extractKeywords ''How do I fix  my Battery issue'' = [''how'', ''fix'', ''battery'']"
proof -
  have "\<not> isConnectionError_upd serverError" by code_simp
  then show ?thesis
    by (simp add: keywords_example fallbackSearch_upd_def fallbackSearchCatch_upd_def
      fetchObjectsFallback_upd_def queryWhere_upd_def brokenStore_def Let_def)
qed

section \<open>The classifier\<close>

lemma jsonMatch_span:
  assumes "CHR ''{'' \<notin> set pre" "CHR ''}'' \<notin> set post"
  shows "jsonMatch (pre @ CHR ''{'' # mid @ CHR ''}'' # post) = Some (CHR ''{'' # mid @ [CHR ''}''])"
proof -
  have 1: "dropWhile (\<lambda>c. c \<noteq> CHR ''{'') (pre @ CHR ''{'' # mid @ CHR ''}'' # post)
      = CHR ''{'' # mid @ CHR ''}'' # post"
    using assms(1) by (subst dropWhile_append2) auto
  have 2: "dropWhile (\<lambda>c. c \<noteq> CHR ''}'') (rev post @ CHR ''}'' # rev mid @ [CHR ''{''])
      = CHR ''}'' # rev mid @ [CHR ''{'']"
    using assms(2) by (subst dropWhile_append2) auto
  show ?thesis
    unfolding jsonMatch_def 1 by (simp add: 2 Let_def)
qed

lemma jsonMatch_no_open: "CHR ''{'' \<notin> set text \<Longrightarrow> jsonMatch text = None"
proof -
  assume "CHR ''{'' \<notin> set text"
  then have d: "dropWhile (\<lambda>c. c \<noteq> CHR ''{'') text = []" by auto
  show ?thesis unfolding jsonMatch_def d by (simp add: Let_def)
qed

lemma jsonMatch_no_close:
  assumes "CHR ''{'' \<notin> set pre" "CHR ''}'' \<notin> set rest"
  shows "jsonMatch (pre @ CHR ''{'' # rest) = None"
proof -
  have 1: "dropWhile (\<lambda>c. c \<noteq> CHR ''{'') (pre @ CHR ''{'' # rest) = CHR ''{'' # rest"
    using assms(1) by (subst dropWhile_append2) auto
  have 2: "dropWhile (\<lambda>c. c \<noteq> CHR ''}'') (rev rest @ [CHR ''{'']) = []"
    using assms(2) by auto
  show ?thesis unfolding jsonMatch_def 1 using assms(2) by (simp add: Let_def)
qed

text \<open>
  Claim C3, as amended. For every classifier output: when the output is a string that
  holds an opening brace with a closing brace after it, the router hands the span from
  the first opening brace to the last closing brace to \<open>JSON.parse\<close> and uses the value
  it returns as the analysis, with no check of the fields \<open>needsRAG\<close> and
  \<open>needsChart\<close>; when \<open>JSON.parse\<close> throws on the span, when the output holds no
  such span, or when it is not a string, the analysis is the fixed default
  \<open>needsRAG = true\<close>, \<open>needsChart = false\<close>. The keyword classifier runs only when
  the classifier call itself throws.
\<close>

theorem classifier_output_parsing:
  "(CHR ''{'' \<notin> set pre \<and> CHR ''}'' \<notin> set post \<longrightarrow>
      analyzeQueryRequirements jp
        (Returns (TextContent (pre @ CHR ''{'' # mid @ CHR ''}'' # post))) q =
      (case jp (CHR ''{'' # mid @ [CHR ''}'']) of Some v \<Rightarrow> v | None \<Rightarrow> defaultAnalysis))
   \<and> (CHR ''{'' \<notin> set text \<longrightarrow>
      analyzeQueryRequirements jp (Returns (TextContent text)) q = defaultAnalysis)
   \<and> (CHR ''{'' \<notin> set pre \<and> CHR ''}'' \<notin> set rest \<longrightarrow>
      analyzeQueryRequirements jp (Returns (TextContent (pre @ CHR ''{'' # rest))) q
        = defaultAnalysis)
   \<and> analyzeQueryRequirements jp (Returns NonTextContent) q = defaultAnalysis
   \<and> analyzeQueryRequirements jp (Throws e) q = keywordAnalysis q e
   \<and> getProp defaultAnalysis ''needsRAG'' = Inr (JBool True)
   \<and> getProp defaultAnalysis ''needsChart'' = Inr (JBool False)"
  by (simp add: analyzeQueryRequirements_def parseJSONResponse_def jsonMatch_span
      jsonMatch_no_open jsonMatch_no_close defaultAnalysis_def)

theorem classifier_output_parsing_witness:
  \<open>CHR ''{'' \<notin> set ''Answer: '' \<and> CHR ''}'' \<notin> set '' (done)''
   \<and> analyzeQueryRequirements sampleJSON
        (Returns (TextContent ''Answer: {"needsRAG": false, "needsChart": true} (done)''))
        ''show me ticket statistics''
      = JObj [(''needsRAG'', JBool False), (''needsChart'', JBool True)]
   \<and> CHR ''{'' \<notin> set ''I cannot answer that.''
   \<and> analyzeQueryRequirements sampleJSON (Returns (TextContent ''I cannot answer that.''))
        ''show me ticket statistics'' = defaultAnalysis
   \<and> CHR ''}'' \<notin> set ''"needsRAG": true''
   \<and> analyzeQueryRequirements sampleJSON (Returns (TextContent ''Answer: {"needsRAG": true''))
        ''show me ticket statistics'' = defaultAnalysis\<close>
proof -
  have 1: "CHR ''{'' \<notin> set ''Answer: ''" "CHR ''}'' \<notin> set '' (done)''"
    "CHR ''{'' \<notin> set ''I cannot answer that.''"
    by simp_all
  have 2: \<open>CHR ''}'' \<notin> set ''"needsRAG": true''\<close> by simp
  have 3: \<open>sampleJSON ''{"needsRAG": false, "needsChart": true}'' =
      Some (JObj [(''needsRAG'', JBool False), (''needsChart'', JBool True)])\<close>
    by (simp add: sampleJSON_def)
  show ?thesis
    using classifier_output_parsing
        [of "''Answer: ''" "'' (done)''" sampleJSON \<open>''"needsRAG": false, "needsChart": true''\<close>
            "''show me ticket statistics''" "''I cannot answer that.''"
            \<open>''"needsRAG": true''\<close> quotaError]
      1 2 3
    by simp
qed

text \<open>
  The claim as stated fails. The span is not the first balanced one: with a second pair of
  braces after the object the match runs to the last brace, does not parse, and the
  default is used although the first balanced span parses. An output with no braces gives
  the default, not the decision of the keyword classifier, which for this query is the
  opposite one. And an object whose two fields are a string and a number is used as it is.
\<close>

theorem classifier_output_counterexample:
  \<open>jsonMatch ''{"needsRAG": false, "needsChart": true} and {more}''
     = Some ''{"needsRAG": false, "needsChart": true} and {more}''
   \<and> sampleJSON ''{"needsRAG": false, "needsChart": true}''
     = Some (JObj [(''needsRAG'', JBool False), (''needsChart'', JBool True)])
   \<and> analyzeQueryRequirements sampleJSON
        (Returns (TextContent ''{"needsRAG": false, "needsChart": true} and {more}''))
        ''show me ticket statistics'' = defaultAnalysis
   \<and> analyzeQueryRequirements sampleJSON (Returns (TextContent ''I cannot answer that.''))
        ''show me ticket statistics'' = defaultAnalysis
   \<and> getProp defaultAnalysis ''needsRAG'' = Inr (JBool True)
   \<and> getProp defaultAnalysis ''needsChart'' = Inr (JBool False)
   \<and> getProp (keywordAnalysis ''show me ticket statistics'' quotaError) ''needsRAG''
       = Inr (JBool False)
   \<and> getProp (keywordAnalysis ''show me ticket statistics'' quotaError) ''needsChart''
       = Inr (JBool True)
   \<and> analyzeQueryRequirements sampleJSON
        (Returns (TextContent ''{"needsRAG": "no", "needsChart": 1}''))
        ''show me ticket statistics''
      = JObj [(''needsRAG'', JStr ''no''), (''needsChart'', JNum 1)]\<close>
proof -
  have m1: \<open>jsonMatch ''{"needsRAG": false, "needsChart": true} and {more}''
     = Some ''{"needsRAG": false, "needsChart": true} and {more}''\<close>
    by (simp add: jsonMatch_def)
  have m2: "jsonMatch ''I cannot answer that.'' = None"
    by (simp add: jsonMatch_def)
  have m3: \<open>jsonMatch ''{"needsRAG": "no", "needsChart": 1}''
      = Some ''{"needsRAG": "no", "needsChart": 1}''\<close>
    by (simp add: jsonMatch_def)
  have k: "\<not> hasIssueKeywords (toLowerCase ''show me ticket statistics'')"
     "hasAnalyticsKeywords (toLowerCase ''show me ticket statistics'')"
    by code_simp+
  show ?thesis
    by (simp add: analyzeQueryRequirements_def parseJSONResponse_def m1 m2 m3 sampleJSON_def
        defaultAnalysis_def keywordAnalysis_def k Let_def)
qed

lemma trim_notFound: "trim notFoundText = notFoundText"
  by (rule trim_id) (simp_all add: notFoundText_def isWhitespace_def)

lemma combineResults_none: "combineResults None None = notFoundText"
  using trim_notFound by (simp add: combineResults_def notFoundText_def Let_def)

text \<open>
  Claim C4, as amended. When the classifier call throws and the lower-cased query matches
  neither keyword set, the keyword classifier yields \<open>needsRAG = false\<close> and
  \<open>needsChart = false\<close>; the router then runs neither tool and returns the fixed text
  that asks for a question about support issues or analytics, with the thread identifier
  as its only reference and a null chart.
\<close>

theorem keyword_classifier_no_match:
  "classify env = Throws e \<and> \<not> hasIssueKeywords (toLowerCase q)
     \<and> \<not> hasAnalyticsKeywords (toLowerCase q) \<longrightarrow>
   analyzeQueryRequirements (JSON_parse env) (classify env) q =
     JObj [(''needsRAG'', JBool False), (''needsChart'', JBool False),
           (''reasoning'',
            JStr (if isQuotaError e
                  then ''Fallback analysis due to API quota limits - using keyword detection''
                  else ''Fallback analysis based on keywords due to LLM error''))]
   \<and> handleQuery env q tenant thread =
       Inr \<lparr>finalAnswer = ''I couldn't find specific information for your query. Please try asking about support issues or requesting analytics.'',
            finalReferences = \<lparr>threadId = thread, refTicketIds = None, errorMessage = None\<rparr>,
            chart = None\<rparr>"
  using combineResults_none
  by (simp add: analyzeQueryRequirements_def keywordAnalysis_def handleQuery_def
      handleQueryTry_def notFoundText_def Let_def)

lemma hello_no_keywords:
  "\<not> hasIssueKeywords (toLowerCase ''Hello there'')"
  "\<not> hasAnalyticsKeywords (toLowerCase ''Hello there'')"
  by code_simp+

theorem keyword_classifier_no_match_witness:
  "classify outageEnv = Throws quotaError
   \<and> \<not> hasIssueKeywords (toLowerCase ''Hello there'')
   \<and> \<not> hasAnalyticsKeywords (toLowerCase ''Hello there'')
   \<and> handleQuery outageEnv ''Hello there'' Null ''default'' =
       Inr \<lparr>finalAnswer = ''I couldn't find specific information for your query. Please try asking about support issues or requesting analytics.'',
            finalReferences = \<lparr>threadId = ''default'', refTicketIds = None, errorMessage = None\<rparr>,
            chart = None\<rparr>"
proof -
  have c: "classify outageEnv = Throws quotaError" by (simp add: outageEnv_def)
  show ?thesis
    using keyword_classifier_no_match [of outageEnv quotaError "''Hello there''" Null "''default''"]
      c hello_no_keywords
    by simp
qed

text \<open>The claim as stated fails: for a greeting the keyword classifier does not ask
  for retrieval.\<close>

theorem keyword_classifier_counterexample:
  "\<not> hasIssueKeywords (toLowerCase ''Hello there'')
   \<and> \<not> hasAnalyticsKeywords (toLowerCase ''Hello there'')
   \<and> getProp (analyzeQueryRequirements sampleJSON (Throws quotaError) ''Hello there'')
        ''needsRAG'' = Inr (JBool False)"
  using hello_no_keywords
  by (simp add: analyzeQueryRequirements_def keywordAnalysis_def Let_def)

section \<open>The query router\<close>

lemma presentable_char: "c \<in> set s \<Longrightarrow> \<not> isWhitespace c \<Longrightarrow> presentable s"
  by (simp add: presentable_def trim_nonempty)

lemma dashboardHeader_star: "CHR ''*'' \<in> set dashboardHeader"
  by (simp add: dashboardHeader_def)

lemma combineResults_nonempty:
  assumes "\<And>r. ragResult = Some r \<Longrightarrow> presentable (contentText (agentAnswer r))"
  shows "combineResults ragResult chartResult \<noteq> []"
proof (cases chartResult)
  case None
  show ?thesis
  proof (cases "\<exists>r. ragResult = Some r \<and> truthyContent (agentAnswer r)
                   \<and> contentText (agentAnswer r) \<noteq> []")
    case True
    then obtain r where r: "ragResult = Some r" "truthyContent (agentAnswer r)"
      "contentText (agentAnswer r) \<noteq> []" by blast
    then have "trim (contentText (agentAnswer r)) \<noteq> []"
      using assms by (simp add: presentable_def)
    then show ?thesis using r None by (simp add: combineResults_def Let_def)
  next
    case False
    then have "combineResults ragResult None = notFoundText"
      using trim_notFound
      by (cases ragResult) (auto simp: combineResults_def notFoundText_def Let_def)
    then show ?thesis using None by (simp add: notFoundText_def)
  qed
next
  case (Some cr)
  have star: "\<not> isWhitespace (CHR ''*'')" by (simp add: isWhitespace_def)
  have "combineResults ragResult (Some cr) \<noteq> []"
    unfolding combineResults_def Let_def option.case
    by (rule trim_nonempty [of "CHR ''*''"])
       (simp_all add: dashboardHeader_star star split: option.splits)
  then show ?thesis using Some by simp
qed

lemma ragHandleQuery_upd_presentable:
  "(case run of Returns content \<Rightarrow> presentable (contentText content) | Throws error \<Rightarrow> True)
   \<Longrightarrow> presentable (contentText (agentAnswer (ragHandleQuery_upd run q t th)))"
proof -
  have 1: "presentable ''I encountered an error while searching for support tickets. Please try again.''"
    by (rule presentable_char [of "CHR ''I''"]) (simp_all add: isWhitespace_def)
  assume "case run of Returns content \<Rightarrow> presentable (contentText content) | Throws error \<Rightarrow> True"
  then show ?thesis
    using 1 by (cases run) (simp_all add: ragHandleQuery_upd_def)
qed

text \<open>
  \<open>handleQuery\<close> returns on every path, with the thread identifier in the references;
  when the body of its \<open>try\<close> throws, the object is the fixed apology with the message
  of the error and a null chart. The text is not empty whenever the agent threw or its
  last message, read as a string, is empty or keeps a character when trimmed.
\<close>

lemma handleQuery_returns:
  "\<exists>r. handleQuery env q tenant thread = Inr r
       \<and> threadId (finalReferences r) = thread
       \<and> refTicketIds (finalReferences r) = None
       \<and> ((case agentRun env of
              Returns content \<Rightarrow> presentable (contentText content)
            | Throws error \<Rightarrow> True)
           \<longrightarrow> finalAnswer r \<noteq> [])
       \<and> (case handleQueryTry env q tenant thread of
            Inr r' \<Rightarrow> r = r'
          | Inl error \<Rightarrow>
              r = \<lparr>finalAnswer = ''I encountered an error while processing your request. Please try again.'',
                   finalReferences = \<lparr>threadId = thread, refTicketIds = None,
                                      errorMessage = message error\<rparr>,
                   chart = None\<rparr>)"
proof (cases "handleQueryTry env q tenant thread")
  case (Inl error)
  then show ?thesis by (simp add: handleQuery_def)
next
  case (Inr r)
  have n: "combineResults None c \<noteq> []" for c
    by (rule combineResults_nonempty) simp
  have p: "combineResults (Some (ragHandleQuery_upd (agentRun env) q tenant ''default'')) c \<noteq> []"
    if "case agentRun env of
          Returns content \<Rightarrow> presentable (contentText content) | Throws error \<Rightarrow> True" for c
    using ragHandleQuery_upd_presentable [OF that, of q tenant "''default''"]
    by (intro combineResults_nonempty) auto
  from Inr have "threadId (finalReferences r) = thread \<and> refTicketIds (finalReferences r) = None
      \<and> ((case agentRun env of
              Returns content \<Rightarrow> presentable (contentText content)
            | Throws error \<Rightarrow> True)
           \<longrightarrow> finalAnswer r \<noteq> [])"
    using n p
    by (auto simp: handleQueryTry_def Let_def split: sum.splits if_splits)
  then show ?thesis using Inr by (simp add: handleQuery_def)
qed

text \<open>
  Claim C1 fails on the code for a last message of the agent that is blank. The classifier
  asks for retrieval only; the agent of ragAgent.js answers with a space, a line feed, a
  tab and a space; \<open>combineResults\<close> appends this truthy string, finds the answer not
  empty, and trims it. \<open>handleQuery\<close> returns, and the text of the answer is empty.
\<close>

theorem handleQuery_blank_answer:
  "handleQuery blankEnv ''How do I fix my battery issue'' Null ''default'' =
     Inr \<lparr>finalAnswer = [],
          finalReferences = \<lparr>threadId = ''default'', refTicketIds = None, errorMessage = None\<rparr>,
          chart = None\<rparr>"
proof -
  have m: \<open>jsonMatch ''{"needsRAG": true, "needsChart": false}''
      = Some ''{"needsRAG": true, "needsChart": false}''\<close>
    by (simp add: jsonMatch_def)
  have t: "trim [CHR '' '', CHR 0x0A, CHR 0x09, CHR '' ''] = []"
    by (simp add: trim_def isWhitespace_def)
  show ?thesis
    using t
    by (simp add: handleQuery_def handleQueryTry_def analyzeQueryRequirements_def
        parseJSONResponse_def m blankEnv_def ragHandleQuery_upd_def
        combineResults_def Let_def)
qed

section \<open>The analytics aggregation\<close>

lemma processTicket_responseTimes:
  "dp [] = None \<Longrightarrow>
     acc_responseTimes (processTicket dp acc t) = acc_responseTimes acc @ responseSample dp [t]"
  by (cases "firstResponseTime t")
     (auto simp: processTicket_def responseSample_def parseTimeToHours_def hourOfDay_def Let_def
        split: option.splits)

lemma responseSample_Cons:
  "responseSample dp (t # ts) = responseSample dp [t] @ responseSample dp ts"
  by (simp add: responseSample_def)

lemma foldl_responseTimes:
  "dp [] = None \<Longrightarrow>
     acc_responseTimes (foldl (processTicket dp) acc ts)
       = acc_responseTimes acc @ responseSample dp ts"
proof (induction ts arbitrary: acc)
  case Nil
  then show ?case by (simp add: responseSample_def)
next
  case (Cons t ts)
  then show ?case
    by (simp add: processTicket_responseTimes responseSample_Cons [of dp t ts])
qed

lemma hourOfDay_range: "h < 24 \<Longrightarrow> m < 60 \<Longrightarrow> 0 \<le> hourOfDay (h, m) \<and> hourOfDay (h, m) < 24"
proof -
  assume h: "h < 24" and m: "m < 60"
  have "(of_nat m :: rat) < 60" using m by (metis of_nat_less_iff of_nat_numeral)
  then have 1: "(of_nat m :: rat) / 60 < 1" by simp
  have "h \<le> 23" using h by simp
  then have 2: "(of_nat h :: rat) \<le> 23" by (metis of_nat_le_iff of_nat_numeral)
  show ?thesis using 1 2 by (simp add: hourOfDay_def)
qed

text \<open>
  Claim C9. Given that the runtime parses no date from the empty string: the response-time
  statistics are those of the sample that holds, for every ticket whose first-response
  timestamp parses, the hour of the day plus the minutes divided by 60, and nothing for
  a ticket whose timestamp does not parse or is missing. With hours below 24 and minutes
  below 60 every value of the sample lies in [0, 24). Numbers are exact rationals.
\<close>

theorem response_time_is_hour_of_day:
  "dp [] = None \<longrightarrow>
     responseTimeStats (processAnalyticsData dp tickets)
       = calculateTimeStats (responseSample dp tickets)
     \<and> parseTimeToHours dp (Text s) = map_option hourOfDay (dp s)
     \<and> (dp s = Some (h, m) \<longrightarrow>
          parseTimeToHours dp (Text s) = Some (of_nat h + of_nat m / 60))
     \<and> (dp s = None \<longrightarrow> responseSample dp [t\<lparr>firstResponseTime := Text s\<rparr>] = [])
     \<and> (list_all (\<lambda>t. case firstResponseTime t of
                          Text s \<Rightarrow> (case dp s of Some (h, m) \<Rightarrow> h < 24 \<and> m < 60 | None \<Rightarrow> True)
                        | _ \<Rightarrow> True) tickets
         \<longrightarrow> list_all (\<lambda>x. 0 \<le> x \<and> x < 24) (responseSample dp tickets))"
proof (intro impI conjI)
  assume e: "dp [] = None"
  show "responseTimeStats (processAnalyticsData dp tickets)
       = calculateTimeStats (responseSample dp tickets)"
    using foldl_responseTimes [of dp emptyAcc tickets] e
    by (simp add: processAnalyticsData_def Let_def emptyAcc_def)
  show "parseTimeToHours dp (Text s) = map_option hourOfDay (dp s)"
    by (simp add: parseTimeToHours_def hourOfDay_def split: option.splits)
  show "parseTimeToHours dp (Text s) = Some (of_nat h + of_nat m / 60)" if "dp s = Some (h, m)"
    using that by (simp add: parseTimeToHours_def)
  show "responseSample dp [t\<lparr>firstResponseTime := Text s\<rparr>] = []" if "dp s = None"
    using that by (simp add: responseSample_def)
  show "list_all (\<lambda>x. 0 \<le> x \<and> x < 24) (responseSample dp tickets)"
    if "list_all (\<lambda>t. case firstResponseTime t of
                          Text s \<Rightarrow> (case dp s of Some (h, m) \<Rightarrow> h < 24 \<and> m < 60 | None \<Rightarrow> True)
                        | _ \<Rightarrow> True) tickets"
    using that
  proof (induction tickets)
    case Nil
    then show ?case by (simp add: responseSample_def)
  next
    case (Cons t ts)
    have "list_all (\<lambda>x. 0 \<le> x \<and> x < 24) (responseSample dp [t])"
      using Cons.prems hourOfDay_range
      by (auto simp: responseSample_def split: field.splits option.splits)
    then show ?case using Cons by (simp add: responseSample_Cons [of dp t ts])
  qed
qed

lemma sampleDates_facts:
  "sampleDates [] = None" "sampleDates ''2023-06-01T14:30:00Z'' = Some (14, 30)"
  "sampleDates ''soon'' = None"
  by (simp_all add: sampleDates_def)

lemma sample_responseSample: "responseSample sampleDates [ticketA, ticketB, ticketC] = [29 / 2]"
  by (simp add: responseSample_def ticketA_def ticketB_def ticketC_def sampleDates_facts
      hourOfDay_def)

theorem response_time_is_hour_of_day_witness:
  "sampleDates [] = None
   \<and> sampleDates ''2023-06-01T14:30:00Z'' = Some (14, 30)
   \<and> sampleDates ''soon'' = None
   \<and> parseTimeToHours sampleDates (Text ''2023-06-01T14:30:00Z'') = Some (29 / 2)
   \<and> responseSample sampleDates [ticketA, ticketB, ticketC] = [29 / 2]
   \<and> responseTimeStats (processAnalyticsData sampleDates [ticketA, ticketB, ticketC])
       = \<lparr>time_average = 29 / 2, time_min = 29 / 2, time_max = 29 / 2, time_count = 1\<rparr>"
proof -
  have c: "calculateTimeStats [29 / 2]
      = \<lparr>time_average = 29 / 2, time_min = 29 / 2, time_max = 29 / 2, time_count = 1\<rparr>"
  proof -
    have "\<lfloor>(2901 :: rat) / 2\<rfloor> = 1450" by (rule floor_unique) simp_all
    then show ?thesis by (simp add: calculateTimeStats_def mathRound_def Let_def)
  qed
  show ?thesis
    using response_time_is_hour_of_day
        [of sampleDates "[ticketA, ticketB, ticketC]" "''2023-06-01T14:30:00Z''" 14 30 ticketA]
      sampleDates_facts sample_responseSample c
    by (simp add: hourOfDay_def)
qed

lemma setOwn_fresh: "map_of obj key = None \<Longrightarrow> setOwn obj key v = obj @ [(key, v)]"
  by (simp add: setOwn_def map_of_eq_None_iff)

lemma setOwn_present:
  "map_of obj key = Some w \<Longrightarrow>
     setOwn obj key v = map (\<lambda>(k, w). if k = key then (k, v) else (k, w)) obj"
  by (auto simp: setOwn_def dest: map_of_SomeD intro: rev_image_eqI)

lemma replace_absent:
  "key \<notin> fst ` set obj \<Longrightarrow> map (\<lambda>(k, w). if k = key then (k, v) else (k, w)) obj = obj"
  by (induction obj) auto

lemma countSum_replace:
  "distinct (map fst obj) \<Longrightarrow> map_of obj key = Some (Count n) \<Longrightarrow>
     countSum (map (\<lambda>(k, w). if k = key then (k, Count (Suc n)) else (k, w)) obj)
       = Suc (countSum obj)"
proof (induction obj)
  case Nil
  then show ?case by simp
next
  case (Cons kv obj)
  obtain k w where kv: "kv = (k, w)" by (cases kv)
  show ?case
  proof (cases "k = key")
    case True
    then have w: "w = Count n" using Cons.prems kv by simp
    have "key \<notin> fst ` set obj" using Cons.prems True kv by auto
    then show ?thesis
      using True kv w by (simp add: replace_absent countSum_def countOf_def)
  next
    case False
    then have "map_of obj key = Some (Count n)" using Cons.prems kv by simp
    then show ?thesis
      using Cons False kv by (simp add: countSum_def)
  qed
qed

lemma map_fst_replace:
  "map fst (map (\<lambda>(k, w). if k = key then (k, v) else (k, w)) obj) = map fst obj"
  by (induction obj) auto

lemma isCount_replace:
  "list_all (\<lambda>kv. isCount (snd kv)) obj \<Longrightarrow> isCount v \<Longrightarrow>
     list_all (\<lambda>kv. isCount (snd kv)) (map (\<lambda>(k, w). if k = key then (k, v) else (k, w)) obj)"
  by (induction obj) auto

lemma wellCounted_lookup:
  "wellCounted obj \<Longrightarrow> map_of obj key = Some v \<Longrightarrow> isCount v"
  by (auto simp: wellCounted_def list_all_iff dest: map_of_SomeD)

lemma increment_counts:
  assumes "wellCounted obj" "inherited key = None"
  shows "wellCounted (increment obj key) \<and> countSum (increment obj key) = Suc (countSum obj)"
proof (cases "map_of obj key")
  case None
  then have "increment obj key = obj @ [(key, Count 1)]"
    using assms(2) by (simp add: increment_def setOwn_fresh)
  moreover have "key \<notin> fst ` set obj" using None by (simp add: map_of_eq_None_iff)
  ultimately show ?thesis
    using assms(1) by (simp add: wellCounted_def countSum_def countOf_def isCount_def)
next
  case (Some v)
  have "isCount v" using assms(1) Some by (rule wellCounted_lookup)
  then obtain n where v: "v = Count n" by (cases v) (simp_all add: isCount_def)
  have inc: "increment obj key = map (\<lambda>(k, w). if k = key then (k, Count (Suc n)) else (k, w)) obj"
    using Some v by (simp add: increment_def setOwn_present)
  have d: "distinct (map fst obj)" using assms(1) by (simp add: wellCounted_def)
  have "countSum (increment obj key) = Suc (countSum obj)"
    unfolding inc using d Some v by (simp add: countSum_replace)
  moreover have "wellCounted (increment obj key)"
  proof -
    have d2: "distinct (map fst (map (\<lambda>(k, w). if k = key then (k, Count (Suc n)) else (k, w)) obj))"
      unfolding map_fst_replace by (rule d)
    have "list_all (\<lambda>kv. isCount (snd kv)) obj" using assms(1) by (simp add: wellCounted_def)
    moreover have "isCount (Count (Suc n))" by (simp add: isCount_def)
    ultimately have c2: "list_all (\<lambda>kv. isCount (snd kv))
        (map (\<lambda>(k, w). if k = key then (k, Count (Suc n)) else (k, w)) obj)"
      by (rule isCount_replace)
    show ?thesis unfolding inc wellCounted_def using d2 c2 by blast
  qed
  ultimately show ?thesis by simp
qed

lemma processTicket_distributions:
  "acc_statusDistribution (processTicket dp acc t)
     = increment (acc_statusDistribution acc) (statusLabel t)"
  "acc_priorityDistribution (processTicket dp acc t)
     = increment (acc_priorityDistribution acc) (priorityLabel t)"
  by (simp_all add: processTicket_def statusLabel_def priorityLabel_def Let_def)

lemma foldl_counts:
  "wellCounted (acc_statusDistribution acc) \<Longrightarrow>
   wellCounted (acc_priorityDistribution acc) \<Longrightarrow>
   list_all (\<lambda>t. inherited (statusLabel t) = None \<and> inherited (priorityLabel t) = None) ts \<Longrightarrow>
     wellCounted (acc_statusDistribution (foldl (processTicket dp) acc ts))
     \<and> wellCounted (acc_priorityDistribution (foldl (processTicket dp) acc ts))
     \<and> countSum (acc_statusDistribution (foldl (processTicket dp) acc ts))
         = countSum (acc_statusDistribution acc) + length ts
     \<and> countSum (acc_priorityDistribution (foldl (processTicket dp) acc ts))
         = countSum (acc_priorityDistribution acc) + length ts"
proof (induction ts arbitrary: acc)
  case Nil
  then show ?case by simp
next
  case (Cons t ts)
  have s: "wellCounted (acc_statusDistribution (processTicket dp acc t))
      \<and> countSum (acc_statusDistribution (processTicket dp acc t))
          = Suc (countSum (acc_statusDistribution acc))"
    unfolding processTicket_distributions
    using Cons.prems by (intro increment_counts) simp_all
  have p: "wellCounted (acc_priorityDistribution (processTicket dp acc t))
      \<and> countSum (acc_priorityDistribution (processTicket dp acc t))
          = Suc (countSum (acc_priorityDistribution acc))"
    unfolding processTicket_distributions
    using Cons.prems by (intro increment_counts) simp_all
  have "list_all (\<lambda>t. inherited (statusLabel t) = None \<and> inherited (priorityLabel t) = None) ts"
    using Cons.prems by simp
  then show ?case
    using Cons.IH [of "processTicket dp acc t"] s p by simp
qed

text \<open>When no label is the name of a property that objects inherit, the status counts
  and the priority counts each sum to the number of tickets, and every stored value is a
  number. For no tickets every aggregate is the zeroed structure.\<close>

lemma counts_sum_to_total:
  "list_all (\<lambda>t. inherited (statusLabel t) = None \<and> inherited (priorityLabel t) = None) tickets
   \<Longrightarrow> countSum (statusDistribution (processAnalyticsData dp tickets)) = length tickets
     \<and> countSum (priorityDistribution (processAnalyticsData dp tickets)) = length tickets
     \<and> list_all (\<lambda>kv. isCount (snd kv)) (statusDistribution (processAnalyticsData dp tickets))
     \<and> list_all (\<lambda>kv. isCount (snd kv)) (priorityDistribution (processAnalyticsData dp tickets))"
  using foldl_counts [of emptyAcc tickets dp]
  by (simp add: processAnalyticsData_def Let_def emptyAcc_def wellCounted_def countSum_def)

lemma empty_ticket_set:
  "processAnalyticsData dp [] =
     \<lparr>statusDistribution = [], priorityDistribution = [],
      responseTimeStats = \<lparr>time_average = 0, time_min = 0, time_max = 0, time_count = 0\<rparr>,
      resolutionTimeStats = \<lparr>time_average = 0, time_min = 0, time_max = 0, time_count = 0\<rparr>,
      satisfactionStats = \<lparr>sat_average = 0, sat_distribution = [], sat_count = 0\<rparr>\<rparr>"
  by (simp add: processAnalyticsData_def emptyAcc_def calculateTimeStats_def
      calculateSatisfactionStats_def Let_def)

lemma proto: "inherited ''constructor'' = Some ''function Object() { [native code] }''"
   "inherited ''Closed'' = None" "inherited ''High'' = None"
  by code_simp+

text \<open>
  Claim C8 fails on the code for a label that objects inherit. Of two tickets, one with
  the status \<open>constructor\<close>, the status distribution holds the text of a function
  followed by \<open>1\<close> under that key and a count of 1 for the other status: the counts
  sum to 1, not to 2.
\<close>

theorem status_count_inherited_key:
  "statusDistribution (processAnalyticsData dp [ticketProto, ticketA]) =
     [(''constructor'', Junk ''function Object() { [native code] }1''), (''Closed'', Count 1)]
   \<and> priorityDistribution (processAnalyticsData dp [ticketProto, ticketA]) = [(''High'', Count 2)]
   \<and> countSum (statusDistribution (processAnalyticsData dp [ticketProto, ticketA])) = 1
   \<and> length [ticketProto, ticketA] = 2"
  by (simp add: processAnalyticsData_def processTicket_def emptyAcc_def ticketProto_def
      ticketA_def increment_def setOwn_def proto Let_def countSum_def countOf_def)

end
